theory Spec2Isabelle
  imports Complex_Main
begin

section \<open>Resilient data synchronisation: cache, connection monitor, consent provider\<close>

text \<open>
  A shallow embedding of the synchronisation layer of the consent application:
  the two-tier cache (\<open>cacheData\<close>, \<open>getCachedData\<close>), the connection monitor
  (\<open>checkSupabaseConnection\<close>) and the provider that owns the two record collections
  (\<open>loadConsentimientos\<close>, \<open>retryConnection\<close>, \<open>addConsentimiento\<close>,
  \<open>archivarConsentimiento\<close> and the event handlers).

  Conventions of the embedding.
  \<^item> Module-level variables and the browser's \<open>localStorage\<close> are fields of one state
    record. A \<open>useState\<close> cell is a field holding the value the cell has once the updates
    queued so far are applied: a setter is a field update, and a functional updater
    (\<open>prev => ...\<close>) reads the field.
  \<^item> A callback does not read the cells; it reads the values it captured when it was
    created. \<open>loadConsentimientos\<close> is memoised by \<open>useCallback\<close> with the dependencies
    \<open>retryCount\<close>, \<open>getRetryDelay\<close> and two constants, so its \<open>isRetrying\<close> and
    \<open>retryCount\<close> are those of the render in which \<open>retryCount\<close> last changed. The
    captured values are an argument (\<open>closure\<close>) of every function that runs such a
    callback. \<open>addConsentimiento\<close>, \<open>archivarConsentimiento\<close> and
    \<open>getConsentimiento\<close> are created anew in every render, so what they capture is the
    state they are called in.
  \<^item> Everything the code obtains from outside (the clock, \<open>Math.random\<close>, the result of
    each awaited request) is a field of an environment record. An awaited remote query
    either resolves to \<open>{data, error}\<close> or rejects with an exception.
  \<^item> A JavaScript exception is a value \<open>JsError name message\<close>; a function that can
    throw returns \<open>js_error + 'a\<close>. Messages are the source's, with accents dropped.
  \<^item> The client's own \<open>fetch\<close> wrapper, which sits below every awaited query (it
    rejects requests in offline mode and maintains the flag \<open>app_network_unreachable\<close>),
    is part of the environment: a query is modelled by what its \<open>await\<close> yields.
  \<^item> Requests that are issued are appended to the field \<open>calls\<close>, timers started
    for background retries to \<open>pendingRetries\<close> (with the closure their callback holds),
    and exceptions printed by the outermost handlers to \<open>consoleErrors\<close>. The history
    field \<open>checkStarts\<close> records what the cells held each time a load cycle called the
    connectivity check.
\<close>

subsection \<open>Errors and awaited results\<close>

datatype js_error = JsError (err_name: string) (err_message: string)

definition Error :: "string \<Rightarrow> js_error" where
  "Error m = JsError ''Error'' m"

text \<open>The value of \<open>await query\<close>: \<open>Resolved data error\<close> for \<open>{data, error}\<close>
  (\<open>error\<close> carries its message when present), \<open>Rejected e\<close> when the promise rejects.\<close>

datatype 'd outcome = Resolved 'd "string option" | Rejected js_error

subsection \<open>Domain records\<close>

type_synonym salud = "(string \<times> string) list"

record Cliente =
  nombre :: string
  apellidos :: string
  edad :: int
  rut :: string
  fechaNacimiento :: string
  direccion :: string
  telefono :: string
  email :: string
  confirmacionDatos :: bool

text \<open>The column \<open>client_info\<close>: the nine client fields and the optional health record.\<close>

record ClientInfo = Cliente +
  ci_informacionSalud :: "salud option"

record Tutor =
  tutor_nombre :: string
  tutor_rut :: string
  parentesco :: string
  otroParentesco :: string
  tutor_firma :: string

text \<open>The argument of \<open>addConsentimiento\<close> is a \<open>Consentimiento\<close> without \<open>id\<close> (here \<open>consent_id\<close>),
  \<open>codigo\<close>, \<open>fechaCreacion\<close> and \<open>archivado\<close>.\<close>

record NuevoConsentimiento =
  cliente :: Cliente
  tutor :: "Tutor option"
  informacionSalud :: salud
  artistaSeleccionado :: string
  firma :: string

record Consentimiento = NuevoConsentimiento +
  consent_id :: string
  codigo :: string
  fechaCreacion :: string
  archivado :: bool

text \<open>A row of the table \<open>consents\<close> as selected by the two queries; \<open>client_info = None\<close>
  is a null column, \<open>artists\<close> the joined artist name.\<close>

record Row =
  row_id :: string
  code :: string
  client_info :: "ClientInfo option"
  tutor_info :: "Tutor option"
  artist_id :: string
  client_signature :: string
  tutor_signature :: "string option"
  archived :: bool
  created_at :: string
  updated_at :: string
  artists :: "string option"

subsection \<open>State\<close>

text \<open>What a cache entry holds: \<open>null\<close>, an array, or any other value.\<close>

datatype 'a jsdata = Null | Array "'a list" | Plain 'a

record 'a CacheItem =
  data :: "'a jsdata"
  timestamp :: int
  expiry :: int

text \<open>A string kept in \<open>localStorage\<close>, by what \<open>getCachedData\<close> can do with it:
  \<open>Json item\<close> is the text \<open>JSON.stringify\<close> writes for a cache item and
  \<open>JSON.parse\<close> reads back as that item; \<open>Atom s\<close> is a text that parses to a value
  without an \<open>expiry\<close> (the flags are \<open>Atom ''true''\<close>); \<open>Unparsable s\<close> is a text on
  which the \<open>try\<close> block has no effect (empty, rejected by \<open>JSON.parse\<close>, or the text
  \<open>null\<close>).\<close>

datatype 'a ls_value = Json "'a CacheItem" | Atom string | Unparsable string

datatype call =
    Head string
  | ConfigCount
  | SelectConsents bool
  | SelectArtist string
  | InsertConsent string string
  | RpcArchivar string

record ConnectionStatus =
  isConnected :: bool
  status_timestamp :: int

record 'a lib =
  dataCache :: "string \<Rightarrow> 'a CacheItem option"
  localStorage :: "string \<Rightarrow> 'a ls_value option"
  lastConnectionStatus :: ConnectionStatus
  calls :: "call list"
  sleeps :: "real list"

text \<open>What the memoised \<open>loadConsentimientos\<close> has captured.\<close>

record closure =
  captured_isRetrying :: bool
  captured_retryCount :: nat

text \<open>An entry of the history field: the cells at the moment a load cycle calls the
  connectivity check.\<close>

record snapshot =
  snap_retryCount :: nat
  snap_connectionError :: bool
  snap_pending :: "(int \<times> closure) list"

record provider = "Consentimiento lib" +
  consentimientos :: "Consentimiento list"
  consentimientosArchivados :: "Consentimiento list"
  loading :: bool
  connectionError :: bool
  retryCount :: nat
  lastConnectionAttempt :: "int option"
  isRetrying :: bool
  pendingRetries :: "(int \<times> closure) list"
  consoleErrors :: "js_error list"
  checkStarts :: "snapshot list"

subsection \<open>CacheStore\<close>

definition empty_or_null :: "'a jsdata \<Rightarrow> bool" where
  "empty_or_null d = (case d of Null \<Rightarrow> True | Array xs \<Rightarrow> length xs = 0 | Plain _ \<Rightarrow> False)"

text \<open>\<open>cacheData key data ttlSeconds\<close> at clock \<open>now\<close>; \<open>setItemOk\<close> is False when
  \<open>localStorage.setItem\<close> (or \<open>JSON.stringify\<close>) throws, which the code catches and logs.\<close>

definition cacheData ::
  "int \<Rightarrow> bool \<Rightarrow> string \<Rightarrow> 'a jsdata \<Rightarrow> int \<Rightarrow> ('a, 'z) lib_scheme \<Rightarrow> ('a, 'z) lib_scheme" where
  "cacheData now setItemOk key d ttlSeconds s =
     (if empty_or_null d then s
      else
        let item = \<lparr>data = d, timestamp = now, expiry = now + ttlSeconds * 1000\<rparr>;
            s1 = s\<lparr>dataCache := (dataCache s)(key \<mapsto> item)\<rparr>
        in if setItemOk
           then s1\<lparr>localStorage := (localStorage s1)(''cache_'' @ key \<mapsto> Json item)\<rparr>
           else s1)"

definition removeItem :: "string \<Rightarrow> ('a, 'z) lib_scheme \<Rightarrow> ('a, 'z) lib_scheme" where
  "removeItem k s = s\<lparr>localStorage := (localStorage s)(k := None)\<rparr>"

definition setItem :: "string \<Rightarrow> string \<Rightarrow> ('a, 'z) lib_scheme \<Rightarrow> ('a, 'z) lib_scheme" where
  "setItem k v s = s\<lparr>localStorage := (localStorage s)(k \<mapsto> Atom v)\<rparr>"

text \<open>The second half of \<open>getCachedData\<close>: the durable tier, inside \<open>try\<close>/\<open>catch\<close>.\<close>

definition getStored ::
  "int \<Rightarrow> string \<Rightarrow> ('a, 'z) lib_scheme \<Rightarrow> 'a jsdata \<times> ('a, 'z) lib_scheme" where
  "getStored now key s =
     (case localStorage s (''cache_'' @ key) of
        None \<Rightarrow> (Null, s)
      | Some (Unparsable _) \<Rightarrow> (Null, s)
      | Some (Atom _) \<Rightarrow> (Null, removeItem (''cache_'' @ key) s)
      | Some (Json parsedItem) \<Rightarrow>
          if now \<le> expiry parsedItem
          then (data parsedItem, s\<lparr>dataCache := (dataCache s)(key \<mapsto> parsedItem)\<rparr>)
          else (Null, removeItem (''cache_'' @ key) s))"

definition getCachedData ::
  "int \<Rightarrow> string \<Rightarrow> ('a, 'z) lib_scheme \<Rightarrow> 'a jsdata \<times> ('a, 'z) lib_scheme" where
  "getCachedData now key s =
     (case dataCache s key of
        Some item \<Rightarrow> if now \<le> expiry item then (data item, s) else getStored now key s
      | None \<Rightarrow> getStored now key s)"

subsection \<open>ConnectionMonitor\<close>

definition isOfflineMode :: "('a, 'z) lib_scheme \<Rightarrow> bool" where
  "isOfflineMode s =
     (localStorage s ''app_offline_mode'' = Some (Atom ''true'') \<or>
      localStorage s ''app_network_unreachable'' = Some (Atom ''true''))"

definition toggleOfflineMode :: "bool \<Rightarrow> ('a, 'z) lib_scheme \<Rightarrow> ('a, 'z) lib_scheme" where
  "toggleOfflineMode active s =
     (if active then setItem ''app_offline_mode'' ''true'' s
      else removeItem ''app_network_unreachable'' (removeItem ''app_offline_mode'' s))"

text \<open>\<open>RETRY_SETTINGS\<close> and the debounce window of \<open>checkSupabaseConnection\<close>.\<close>

definition RETRY_initialDelay :: real where "RETRY_initialDelay = 2000"
definition RETRY_maxDelay :: real where "RETRY_maxDelay = 120000"
definition RETRY_maxRetries :: nat where "RETRY_maxRetries = 10"
definition RETRY_factor :: real where "RETRY_factor = 2"
definition CACHE_TTL :: int where "CACHE_TTL = 10000"

definition testUrls :: "string list" where
  "testUrls =
     [''https://www.gstatic.com/generate/1x1.png'',
      ''https://www.apple.com/favicon.ico'',
      ''https://www.cloudflare.com/favicon.ico'']"

text \<open>
  The environment of one call of \<open>checkSupabaseConnection\<close>: \<open>clock\<close> is its
  \<open>Date.now()\<close>, \<open>head_ok url\<close> tells whether the HEAD request to \<open>url\<close> resolves,
  \<open>probe n\<close> is the result of the awaited count query on \<open>config\<close> at retry index
  \<open>n\<close>, and \<open>rnd n\<close> the value of \<open>Math.random()\<close> drawn after that probe threw.
\<close>

record conn_env =
  clock :: int
  head_ok :: "string \<Rightarrow> bool"
  probe :: "nat \<Rightarrow> unit outcome"
  rnd :: "nat \<Rightarrow> real"

text \<open>The loop of \<open>checkInternetConnection\<close> over the remaining URLs.\<close>

fun try_urls :: "conn_env \<Rightarrow> string list \<Rightarrow> ('a, 'z) lib_scheme \<Rightarrow> bool \<times> ('a, 'z) lib_scheme" where
  "try_urls env [] s = (False, s)"
| "try_urls env (url # urls) s =
     (let s1 = s\<lparr>calls := calls s @ [Head url]\<rparr>
      in if head_ok env url then (True, s1) else try_urls env urls s1)"

definition checkInternetConnection :: "conn_env \<Rightarrow> ('a, 'z) lib_scheme \<Rightarrow> bool \<times> ('a, 'z) lib_scheme" where
  "checkInternetConnection env s = try_urls env testUrls s"

definition setStatus :: "bool \<Rightarrow> int \<Rightarrow> ('a, 'z) lib_scheme \<Rightarrow> ('a, 'z) lib_scheme" where
  "setStatus c t s = s\<lparr>lastConnectionStatus := \<lparr>isConnected = c, status_timestamp = t\<rparr>\<rparr>"

text \<open>The \<open>while (currentRetry < RETRY_maxRetries)\<close> loop of \<open>checkSupabaseConnection\<close>, with
  the loop variables \<open>currentRetry\<close> and \<open>delay\<close> as arguments.\<close>

function probe_loop ::
  "conn_env \<Rightarrow> nat \<Rightarrow> real \<Rightarrow> ('a, 'z) lib_scheme \<Rightarrow> bool \<times> ('a, 'z) lib_scheme" where
  "probe_loop env currentRetry delay s =
     (if currentRetry < RETRY_maxRetries then
        (let s1 = s\<lparr>calls := calls s @ [ConfigCount]\<rparr> in
         case probe env currentRetry of
           Resolved _ err \<Rightarrow>
             (let conn_ok = (err = None);
                  s2 = setStatus conn_ok (clock env) s1
              in (conn_ok,
                  if conn_ok
                  then removeItem ''app_network_unreachable'' (removeItem ''app_offline_mode'' s2)
                  else s2))
         | Rejected e \<Rightarrow>
             if RETRY_maxRetries \<le> currentRetry + 1
             then (False, setItem ''app_network_unreachable'' ''true''
                            (setStatus False (clock env) s1))
             else
               (let jitter = rnd env currentRetry * 0.3 * delay;
                    delay' = min (delay * RETRY_factor + jitter) RETRY_maxDelay
                in probe_loop env (currentRetry + 1) delay' (s1\<lparr>sleeps := sleeps s1 @ [delay']\<rparr>)))
      else (False, setStatus False (clock env) s))"
  by pat_completeness auto
termination
  by (relation "measure (\<lambda>(env, currentRetry, delay, s). RETRY_maxRetries - currentRetry)") auto

declare probe_loop.simps [simp del]

definition checkSupabaseConnection ::
  "conn_env \<Rightarrow> ('a, 'z) lib_scheme \<Rightarrow> bool \<times> ('a, 'z) lib_scheme" where
  "checkSupabaseConnection env s =
     (if clock env - status_timestamp (lastConnectionStatus s) < CACHE_TTL
      then (isConnected (lastConnectionStatus s), s)
      else if isOfflineMode s then (False, setStatus False (clock env) s)
      else
        (case checkInternetConnection env s of
           (hasInternet, s1) \<Rightarrow>
             if \<not> hasInternet
             then (False, setStatus False (clock env)
                            (setItem ''app_network_unreachable'' ''true'' s1))
             else probe_loop env 0 RETRY_initialDelay s1))"

subsection \<open>SyncOrchestrator: loading\<close>

definition CONSENT_CACHE_KEY :: string where
  "CONSENT_CACHE_KEY = ''app_consents_data''"

definition ARCHIVED_CONSENT_CACHE_KEY :: string where
  "ARCHIVED_CONSENT_CACHE_KEY = ''app_archived_consents_data''"

definition CONSENT_CACHE_TTL :: int where
  "CONSENT_CACHE_TTL = 172800"

definition MAX_RETRIES :: nat where
  "MAX_RETRIES = 15"

text \<open>\<open>getRetryDelay attempt\<close>, with the value \<open>r\<close> of \<open>Math.random()\<close> as an argument.
  Numbers are exact reals here, not IEEE doubles.\<close>

definition getRetryDelay :: "real \<Rightarrow> nat \<Rightarrow> int" where
  "getRetryDelay r attempt =
     (let baseDelay = 3000;
          maxDelay = 120000;
          expBackoff = min maxDelay (baseDelay * 2 ^ attempt);
          jitter = expBackoff * 0.3 * (r * 2 - 1)
      in \<lfloor>expBackoff + jitter\<rfloor>)"

text \<open>The callback of \<open>data.map\<close> in \<open>transformarDatos\<close>. Reading a property of a null
  \<open>client_info\<close> throws inside the \<open>try\<close>; the \<open>catch\<close> returns null (\<open>None\<close>), which
  \<open>filter(Boolean)\<close> removes.\<close>

definition transformar :: "Row \<Rightarrow> Consentimiento option" where
  "transformar item =
     (case client_info item of
        None \<Rightarrow> None
      | Some clientInfo \<Rightarrow>
          Some \<lparr>cliente =
                  \<lparr>nombre = nombre clientInfo,
                   apellidos = apellidos clientInfo,
                   edad = edad clientInfo,
                   rut = rut clientInfo,
                   fechaNacimiento = fechaNacimiento clientInfo,
                   direccion = direccion clientInfo,
                   telefono = telefono clientInfo,
                   email = email clientInfo,
                   confirmacionDatos = confirmacionDatos clientInfo\<rparr>,
                tutor = tutor_info item,
                informacionSalud =
                  (case ci_informacionSalud clientInfo of None \<Rightarrow> [] | Some h \<Rightarrow> h),
                artistaSeleccionado = (case artists item of None \<Rightarrow> [] | Some n \<Rightarrow> n),
                firma = client_signature item,
                consent_id = row_id item,
                codigo = code item,
                fechaCreacion = created_at item,
                archivado = archived item\<rparr>)"

definition transformarDatos :: "Row list option \<Rightarrow> Consentimiento list" where
  "transformarDatos d = (case d of None \<Rightarrow> [] | Some rows \<Rightarrow> List.map_filter transformar rows)"

text \<open>
  The environment of one call of \<open>loadConsentimientos\<close>: the clock at its cache reads
  (\<open>load_clock\<close>), at its cache writes (\<open>cache_clock\<close>) and in its outer \<open>catch\<close>
  (\<open>catch_clock\<close>); the environment of its connectivity check; whether the 60 s ceiling
  timer wins the race against that check; the draw of \<open>Math.random()\<close>; the results of the
  two awaited queries; and whether \<open>localStorage.setItem\<close> succeeds.
\<close>

record load_env =
  load_clock :: int
  load_conn :: conn_env
  ceiling_first :: bool
  load_random :: real
  activos :: "Row list option outcome"
  archivados :: "Row list option outcome"
  cache_clock :: int
  storage_ok :: bool
  catch_clock :: int

text \<open>\<open>cached?.length > 0\<close> and the array then passed to the setter.\<close>

definition has_items :: "'a jsdata \<Rightarrow> bool" where
  "has_items d = (case d of Array xs \<Rightarrow> 0 < length xs | _ \<Rightarrow> False)"

definition items :: "'a jsdata \<Rightarrow> 'a list" where
  "items d = (case d of Array xs \<Rightarrow> xs | _ \<Rightarrow> [])"

definition serve_cached ::
  "Consentimiento jsdata \<Rightarrow> Consentimiento jsdata \<Rightarrow> provider \<Rightarrow> provider" where
  "serve_cached cachedConsents cachedArchivedConsents s =
     (if has_items cachedConsents \<or> has_items cachedArchivedConsents then
        (let s1 = (if has_items cachedConsents
                   then s\<lparr>consentimientos := items cachedConsents\<rparr> else s)
         in if has_items cachedArchivedConsents
            then s1\<lparr>consentimientosArchivados := items cachedArchivedConsents\<rparr> else s1)
      else s)"

text \<open>The history entry written when a load cycle reaches its connectivity check.\<close>

definition checkpoint :: "provider \<Rightarrow> provider" where
  "checkpoint s =
     s\<lparr>checkStarts := checkStarts s @
          [\<lparr>snap_retryCount = retryCount s, snap_connectionError = connectionError s,
            snap_pending = pendingRetries s\<rparr>]\<rparr>"

text \<open>The part of \<open>loadConsentimientos\<close> after the guard, up to the call of the
  connectivity check: the flags, then the cached snapshots.\<close>

definition load_start :: "load_env \<Rightarrow> bool \<Rightarrow> provider \<Rightarrow> provider" where
  "load_start env isManualRetry s =
     (let s1 = s\<lparr>isRetrying := True,
                 loading := (if isManualRetry then True else loading s),
                 lastConnectionAttempt := Some (load_clock env)\<rparr>
      in case getCachedData (load_clock env) CONSENT_CACHE_KEY s1 of
           (cachedConsents, s2) \<Rightarrow>
             (case getCachedData (load_clock env) ARCHIVED_CONSENT_CACHE_KEY s2 of
                (cachedArchivedConsents, s3) \<Rightarrow>
                  checkpoint (serve_cached cachedConsents cachedArchivedConsents s3)))"

text \<open>\<open>Promise.race\<close> of the connectivity check and the ceiling timer. When the timer
  wins the answer is false; the check still runs to its end, and its effects on the
  state are applied here.\<close>

definition race_connection :: "load_env \<Rightarrow> provider \<Rightarrow> bool \<times> provider" where
  "race_connection env s =
     (case checkSupabaseConnection (load_conn env) s of
        (conn_ok, s1) \<Rightarrow> (if ceiling_first env then False else conn_ok, s1))"

text \<open>The branch \<open>if (!isConnected)\<close>. The test and the argument of
  \<open>getRetryDelay\<close> use the captured \<open>retryCount\<close>; the increment is a functional
  update; \<open>setTimeout\<close> adds the timer, whose callback holds the same closure, to
  \<open>pendingRetries\<close>.\<close>

definition load_disconnected :: "closure \<Rightarrow> load_env \<Rightarrow> bool \<Rightarrow> provider \<Rightarrow> provider" where
  "load_disconnected cap env isManualRetry s =
     (let s1 = s\<lparr>connectionError := True\<rparr>;
          s2 = (if captured_retryCount cap < MAX_RETRIES \<and> \<not> isManualRetry then
                  (let delay = getRetryDelay (load_random env) (captured_retryCount cap)
                   in s1\<lparr>retryCount := retryCount s1 + 1,
                         pendingRetries := pendingRetries s1 @ [(delay, cap)]\<rparr>)
                else if isManualRetry then s1\<lparr>retryCount := 0\<rparr> else s1)
      in s2\<lparr>loading := False, isRetrying := False\<rparr>)"

text \<open>The inner \<open>try\<close> block: the archived query and, when it resolves without error,
  the transformation, the two cache writes and the two setters.\<close>

definition archivados_try ::
  "load_env \<Rightarrow> Row list option \<Rightarrow> provider \<Rightarrow> (js_error + unit) \<times> provider" where
  "archivados_try env dataActivos s =
     (let s1 = s\<lparr>calls := calls s @ [SelectConsents True]\<rparr> in
      case archivados env of
        Rejected e \<Rightarrow> (Inl e, s1)
      | Resolved dataArchivados (Some m) \<Rightarrow>
          (Inl (Error (''Error al cargar consentimientos archivados: '' @ m)), s1)
      | Resolved dataArchivados None \<Rightarrow>
          (let consentimientosActivos = transformarDatos dataActivos;
               consentimientosArchivadosLista = transformarDatos dataArchivados;
               s2 = cacheData (cache_clock env) (storage_ok env) CONSENT_CACHE_KEY
                      (Array consentimientosActivos) CONSENT_CACHE_TTL s1;
               s3 = cacheData (cache_clock env) (storage_ok env) ARCHIVED_CONSENT_CACHE_KEY
                      (Array consentimientosArchivadosLista) CONSENT_CACHE_TTL s2
           in (Inr (), s3\<lparr>consentimientos := consentimientosActivos,
                            consentimientosArchivados := consentimientosArchivadosLista\<rparr>)))"

text \<open>
  The handler \<open>catch (archivedError)\<close>. The function \<open>transformarDatos\<close> is declared with
  \<open>const\<close> inside the \<open>try\<close> block, so the name is not bound in this handler: the call
  \<open>transformarDatos(dataActivos)\<close> in the \<open>AbortError\<close> branch raises a
  \<open>ReferenceError\<close>, and the statements after it (the setter, the cache write, the
  \<open>throw\<close> of the timeout message) are not reached.
\<close>

definition archivados_catch :: "js_error \<Rightarrow> provider \<Rightarrow> (js_error + unit) \<times> provider" where
  "archivados_catch archivedError s =
     (if err_name archivedError = ''AbortError''
      then (Inl (JsError ''ReferenceError'' ''transformarDatos is not defined''), s)
      else (Inl archivedError, s))"

text \<open>The inner \<open>try\<close>/\<open>catch\<close> statement as a whole.\<close>

definition fetch_archivados ::
  "load_env \<Rightarrow> Row list option \<Rightarrow> provider \<Rightarrow> (js_error + unit) \<times> provider" where
  "fetch_archivados env dataActivos s =
     (case archivados_try env dataActivos s of
        (Inl archivedError, s1) \<Rightarrow> archivados_catch archivedError s1
      | (Inr u, s1) \<Rightarrow> (Inr u, s1))"

text \<open>The outer \<open>try\<close> block of the fetch and its handler \<open>catch (fetchError)\<close>.\<close>

definition activos_try :: "load_env \<Rightarrow> provider \<Rightarrow> (js_error + unit) \<times> provider" where
  "activos_try env s =
     (let s1 = s\<lparr>calls := calls s @ [SelectConsents False]\<rparr> in
      case activos env of
        Rejected e \<Rightarrow> (Inl e, s1)
      | Resolved dataActivos (Some m) \<Rightarrow>
          (Inl (Error (''Error al cargar consentimientos activos: '' @ m)), s1)
      | Resolved dataActivos None \<Rightarrow> fetch_archivados env dataActivos s1)"

definition activos_catch :: "js_error \<Rightarrow> provider \<Rightarrow> (js_error + unit) \<times> provider" where
  "activos_catch fetchError s =
     (if err_name fetchError = ''AbortError''
      then (Inl (Error ''Tiempo de espera agotado al cargar consentimientos activos.''), s)
      else (Inl fetchError, s))"

definition fetch_activos :: "load_env \<Rightarrow> provider \<Rightarrow> (js_error + unit) \<times> provider" where
  "fetch_activos env s =
     (case activos_try env s of
        (Inl fetchError, s1) \<Rightarrow> activos_catch fetchError s1
      | (Inr u, s1) \<Rightarrow> (Inr u, s1))"

text \<open>The outermost handler \<open>catch (error)\<close>: the error is printed, the error flag set,
  and the cached snapshots are served again.\<close>

definition load_catch :: "load_env \<Rightarrow> js_error \<Rightarrow> provider \<Rightarrow> provider" where
  "load_catch env error s =
     (let s1 = s\<lparr>consoleErrors := consoleErrors s @ [error], connectionError := True\<rparr>
      in case getCachedData (catch_clock env) CONSENT_CACHE_KEY s1 of
           (cachedConsents, s2) \<Rightarrow>
             (case getCachedData (catch_clock env) ARCHIVED_CONSENT_CACHE_KEY s2 of
                (cachedArchivedConsents, s3) \<Rightarrow>
                  serve_cached cachedConsents cachedArchivedConsents s3))"

text \<open>\<open>loadConsentimientos\<close> from the connectivity check on, with \<open>finally\<close> applied on
  every path.\<close>

definition load_run :: "closure \<Rightarrow> load_env \<Rightarrow> bool \<Rightarrow> provider \<Rightarrow> provider" where
  "load_run cap env isManualRetry s =
     (case race_connection env s of
        (conn_ok, s1) \<Rightarrow>
          if \<not> conn_ok then load_disconnected cap env isManualRetry s1
          else
            (case fetch_activos env (s1\<lparr>connectionError := False, retryCount := 0\<rparr>) of
               (Inl error, s2) \<Rightarrow> (load_catch env error s2)\<lparr>loading := False, isRetrying := False\<rparr>
             | (Inr u, s2) \<Rightarrow> s2\<lparr>loading := False, isRetrying := False\<rparr>))"

text \<open>The guard of \<open>loadConsentimientos\<close> tests the captured \<open>isRetrying\<close>.\<close>

definition loadConsentimientos :: "closure \<Rightarrow> load_env \<Rightarrow> bool \<Rightarrow> provider \<Rightarrow> provider" where
  "loadConsentimientos cap env isManualRetry s =
     (if captured_isRetrying cap \<and> \<not> isManualRetry then s
      else load_run cap env isManualRetry (load_start env isManualRetry s))"


text \<open>
  What \<open>useCallback\<close> returns in a render of state \<open>s\<close> when the previous render held the
  callback with closure \<open>cap\<close>: the same callback while \<open>retryCount\<close> is unchanged, a new
  one capturing the cells of \<open>s\<close> otherwise. The cells start at \<open>isRetrying = false\<close> and
  \<open>retryCount = 0\<close>, which the callback of the first render captures.
\<close>

definition memoised :: "closure \<Rightarrow> provider \<Rightarrow> closure" where
  "memoised cap s =
     (if retryCount s = captured_retryCount cap then cap
      else \<lparr>captured_isRetrying = isRetrying s, captured_retryCount = retryCount s\<rparr>)"

definition initial_closure :: closure where
  "initial_closure = \<lparr>captured_isRetrying = False, captured_retryCount = 0\<rparr>"

subsection \<open>SyncOrchestrator: triggers\<close>

text \<open>The callback given to \<open>setTimeout\<close> by the disconnected branch, run when the first
  pending timer fires. Its \<open>loadConsentimientos\<close> is the callback that scheduled it.\<close>

definition scheduledRetry :: "load_env \<Rightarrow> provider \<Rightarrow> provider" where
  "scheduledRetry env s =
     (case pendingRetries s of
        [] \<Rightarrow> s
      | (delay, cap) # rest \<Rightarrow>
          loadConsentimientos cap env False (s\<lparr>pendingRetries := rest, isRetrying := False\<rparr>))"

text \<open>The handlers registered by the effect hold the callback \<open>loadConsentimientos\<close> of
  the render in which the effect last ran (closure \<open>cap\<close>). First the callback of the
  realtime subscription on \<open>consents\<close>; \<open>cenv\<close> is the environment of the handler's own
  connectivity check.\<close>

definition onRealtimeChange :: "closure \<Rightarrow> conn_env \<Rightarrow> load_env \<Rightarrow> provider \<Rightarrow> provider" where
  "onRealtimeChange cap cenv env s =
     (case checkSupabaseConnection cenv s of
        (conn_ok, s1) \<Rightarrow>
          if conn_ok then loadConsentimientos cap env False (s1\<lparr>isRetrying := False\<rparr>) else s1)"

text \<open>The callback of the five-minute interval.\<close>

definition periodicReconnect :: "closure \<Rightarrow> load_env \<Rightarrow> provider \<Rightarrow> provider" where
  "periodicReconnect cap env s =
     loadConsentimientos cap env False (s\<lparr>retryCount := 0, isRetrying := False\<rparr>)"

definition handleOnline :: "closure \<Rightarrow> load_env \<Rightarrow> provider \<Rightarrow> provider" where
  "handleOnline cap env s =
     loadConsentimientos cap env False (s\<lparr>retryCount := 0, isRetrying := False\<rparr>)"

text \<open>The visibility handler also tests \<open>isRetrying\<close>, as the effect's render saw it
  (\<open>seenRetrying\<close>).\<close>

definition handleVisibilityChange ::
  "bool \<Rightarrow> bool \<Rightarrow> closure \<Rightarrow> conn_env \<Rightarrow> load_env \<Rightarrow> provider \<Rightarrow> provider" where
  "handleVisibilityChange visible seenRetrying cap cenv env s =
     (if visible then
        (case checkSupabaseConnection cenv s of
           (conn_ok, s1) \<Rightarrow>
             if conn_ok \<and> \<not> seenRetrying then loadConsentimientos cap env False s1 else s1)
      else s)"

subsection \<open>SyncOrchestrator: create and archive\<close>

definition chars :: string where
  "chars = ''ABCDEFGHIJKLMNOPQRSTUVWXYZ0123456789''"

definition charAt :: "string \<Rightarrow> int \<Rightarrow> string" where
  "charAt str i = (if 0 \<le> i \<and> i < int (length str) then [str ! nat i] else [])"

text \<open>\<open>generateCode\<close>; \<open>r i\<close> is the \<open>i\<close>-th draw of \<open>Math.random()\<close>.\<close>

definition generateCode :: "(nat \<Rightarrow> real) \<Rightarrow> string" where
  "generateCode r =
     ''TCF-'' @ concat (map (\<lambda>i. charAt chars \<lfloor>r i * real (length chars)\<rfloor>) [0..<5])
       @ ''-'' @ concat (map (\<lambda>i. charAt chars \<lfloor>r i * real (length chars)\<rfloor>) [5..<10])"

definition msg_no_connection :: string where
  "msg_no_connection =
     ''No se puede conectar a Supabase. Por favor, verifica tu conexion a internet e intentalo de nuevo.''"

text \<open>
  The environment of one call of \<open>addConsentimiento\<close>: the environments of its first
  connectivity check and of the re-check in its \<open>catch\<close>, the random draws of the code,
  the creation date, the results of the artist lookup (\<open>artistData.id\<close>, or null data) and
  of the insert, and the clock and outcome of the cache write.
\<close>

record add_env =
  add_conn :: conn_env
  add_recheck :: conn_env
  code_random :: "nat \<Rightarrow> real"
  iso_date :: string
  artist_result :: "string option outcome"
  insert_result :: "Row list option outcome"
  add_cache_clock :: int
  add_storage_ok :: bool

definition insert_try ::
  "add_env \<Rightarrow> NuevoConsentimiento \<Rightarrow> string \<Rightarrow> string \<Rightarrow> string \<Rightarrow> provider
     \<Rightarrow> (js_error + Consentimiento) \<times> provider" where
  "insert_try env newConsentimiento codigo' fechaCreacion' artistId s =
     (let s1 = s\<lparr>calls := calls s @ [InsertConsent codigo' artistId]\<rparr> in
      case insert_result env of
        Rejected e \<Rightarrow> (Inl e, s1)
      | Resolved d (Some m) \<Rightarrow> (Inl (Error (''Error al guardar consentimiento: '' @ m)), s1)
      | Resolved None None \<Rightarrow>
          (Inl (Error ''No se recibieron datos al crear el consentimiento''), s1)
      | Resolved (Some []) None \<Rightarrow>
          (Inl (Error ''No se recibieron datos al crear el consentimiento''), s1)
      | Resolved (Some (row # rest)) None \<Rightarrow>
          (let consentimientoCompleto =
                 \<lparr>cliente = cliente newConsentimiento,
                  tutor = tutor newConsentimiento,
                  informacionSalud = informacionSalud newConsentimiento,
                  artistaSeleccionado = artistaSeleccionado newConsentimiento,
                  firma = firma newConsentimiento,
                  consent_id = row_id row,
                  codigo = codigo',
                  fechaCreacion = fechaCreacion',
                  archivado = False\<rparr>;
               updated = consentimientoCompleto # consentimientos s1;
               s2 = cacheData (add_cache_clock env) (add_storage_ok env) CONSENT_CACHE_KEY
                      (Array updated) CONSENT_CACHE_TTL s1
           in (Inr consentimientoCompleto, s2\<lparr>consentimientos := updated\<rparr>)))"

definition insert_catch ::
  "js_error \<Rightarrow> provider \<Rightarrow> (js_error + Consentimiento) \<times> provider" where
  "insert_catch fetchError s =
     (if err_name fetchError = ''AbortError''
      then (Inl (Error ''Tiempo de espera agotado al guardar el consentimiento. Por favor intente nuevamente.''), s)
      else (Inl fetchError, s))"

definition artist_try ::
  "add_env \<Rightarrow> NuevoConsentimiento \<Rightarrow> string \<Rightarrow> string \<Rightarrow> provider
     \<Rightarrow> (js_error + Consentimiento) \<times> provider" where
  "artist_try env newConsentimiento codigo' fechaCreacion' s =
     (let s1 = s\<lparr>calls := calls s @ [SelectArtist (artistaSeleccionado newConsentimiento)]\<rparr> in
      case artist_result env of
        Rejected e \<Rightarrow> (Inl e, s1)
      | Resolved artistData (Some m) \<Rightarrow>
          (Inl (Error (''No se pudo encontrar el artista seleccionado: '' @ m)), s1)
      | Resolved None None \<Rightarrow>
          (Inl (JsError ''TypeError'' ''Cannot read properties of null (reading id)''), s1)
      | Resolved (Some artistId) None \<Rightarrow>
          (case insert_try env newConsentimiento codigo' fechaCreacion' artistId s1 of
             (Inl fetchError, s2) \<Rightarrow> insert_catch fetchError s2
           | (Inr c, s2) \<Rightarrow> (Inr c, s2)))"

definition artist_catch ::
  "js_error \<Rightarrow> provider \<Rightarrow> (js_error + Consentimiento) \<times> provider" where
  "artist_catch artistFetchError s =
     (if err_name artistFetchError = ''AbortError''
      then (Inl (Error ''Tiempo de espera agotado al buscar el artista. Por favor intente nuevamente.''), s)
      else (Inl artistFetchError, s))"

text \<open>The handler \<open>catch (error)\<close> shared in shape by \<open>addConsentimiento\<close> and
  \<open>archivarConsentimiento\<close>: print, check the connection again, set the error flag when
  it is down, rethrow.\<close>

definition recheck_and_rethrow ::
  "conn_env \<Rightarrow> js_error \<Rightarrow> provider \<Rightarrow> (js_error + 'r) \<times> provider" where
  "recheck_and_rethrow cenv error s =
     (case checkSupabaseConnection cenv (s\<lparr>consoleErrors := consoleErrors s @ [error]\<rparr>) of
        (stillConnected, s1) \<Rightarrow>
          (Inl error, if \<not> stillConnected then s1\<lparr>connectionError := True\<rparr> else s1))"

definition addConsentimiento ::
  "add_env \<Rightarrow> NuevoConsentimiento \<Rightarrow> provider \<Rightarrow> (js_error + Consentimiento) \<times> provider" where
  "addConsentimiento env newConsentimiento s =
     (case checkSupabaseConnection (add_conn env) s of
        (conn_ok, s1) \<Rightarrow>
          if \<not> conn_ok then (Inl (Error msg_no_connection), s1)
          else
            (let codigo' = generateCode (code_random env);
                 fechaCreacion' = iso_date env
             in case (case artist_try env newConsentimiento codigo' fechaCreacion' s1 of
                        (Inl artistFetchError, s2) \<Rightarrow> artist_catch artistFetchError s2
                      | (Inr c, s2) \<Rightarrow> (Inr c, s2)) of
                  (Inl error, s3) \<Rightarrow> recheck_and_rethrow (add_recheck env) error s3
                | (Inr c, s3) \<Rightarrow> (Inr c, s3)))"

definition getConsentimiento :: "string \<Rightarrow> provider \<Rightarrow> Consentimiento option" where
  "getConsentimiento i s =
     (case find (\<lambda>c. consent_id c = i) (consentimientos s) of
        Some c \<Rightarrow> Some c
      | None \<Rightarrow> find (\<lambda>c. consent_id c = i) (consentimientosArchivados s))"

text \<open>The environment of one call of \<open>archivarConsentimiento\<close>.\<close>

record archive_env =
  archive_conn :: conn_env
  archive_recheck :: conn_env
  rpc_result :: "unit outcome"
  archive_cache_clock :: int
  archive_storage_ok :: bool

definition rpc_try :: "archive_env \<Rightarrow> string \<Rightarrow> provider \<Rightarrow> (js_error + unit) \<times> provider" where
  "rpc_try env i s =
     (let s1 = s\<lparr>calls := calls s @ [RpcArchivar i]\<rparr> in
      case rpc_result env of
        Rejected e \<Rightarrow> (Inl e, s1)
      | Resolved d (Some m) \<Rightarrow> (Inl (Error (''Error al archivar consentimiento: '' @ m)), s1)
      | Resolved d None \<Rightarrow> (Inr (), s1))"

definition msg_archive_timeout :: string where
  "msg_archive_timeout =
     ''Tiempo de espera agotado al archivar el consentimiento. Los cambios locales se han aplicado pero podrian no sincronizarse hasta que se restablezca la conexion.''"

definition rpc_catch :: "js_error \<Rightarrow> provider \<Rightarrow> (js_error + unit) \<times> provider" where
  "rpc_catch fetchError s =
     (if err_name fetchError = ''AbortError'' then (Inl (Error msg_archive_timeout), s)
      else (Inl fetchError, s))"

text \<open>The outer \<open>try\<close> block of \<open>archivarConsentimiento\<close>.\<close>

definition archivar_try :: "archive_env \<Rightarrow> string \<Rightarrow> provider \<Rightarrow> (js_error + unit) \<times> provider" where
  "archivar_try env i s =
     (case getConsentimiento i s of
        None \<Rightarrow> (Inl (Error ''No se encontro el consentimiento a archivar''), s)
      | Some consentimiento \<Rightarrow>
          (let consentimientoArchivado = consentimiento\<lparr>archivado := True\<rparr>;
               nuevosActivos = filter (\<lambda>c. consent_id c \<noteq> i) (consentimientos s);
               s1 = s\<lparr>consentimientos := nuevosActivos\<rparr>;
               nuevosArchivados = consentimientoArchivado # consentimientosArchivados s;
               s2 = s1\<lparr>consentimientosArchivados := nuevosArchivados\<rparr>;
               s3 = cacheData (archive_cache_clock env) (archive_storage_ok env) CONSENT_CACHE_KEY
                      (Array nuevosActivos) CONSENT_CACHE_TTL s2;
               s4 = cacheData (archive_cache_clock env) (archive_storage_ok env)
                      ARCHIVED_CONSENT_CACHE_KEY (Array nuevosArchivados) CONSENT_CACHE_TTL s3
           in case rpc_try env i s4 of
                (Inl fetchError, s5) \<Rightarrow> rpc_catch fetchError s5
              | (Inr u, s5) \<Rightarrow> (Inr u, s5)))"

definition archivarConsentimiento ::
  "archive_env \<Rightarrow> string \<Rightarrow> provider \<Rightarrow> (js_error + unit) \<times> provider" where
  "archivarConsentimiento env i s =
     (case checkSupabaseConnection (archive_conn env) s of
        (conn_ok, s1) \<Rightarrow>
          if \<not> conn_ok then (Inl (Error msg_no_connection), s1)
          else
            (case archivar_try env i s1 of
               (Inl error, s2) \<Rightarrow> recheck_and_rethrow (archive_recheck env) error s2
             | (Inr u, s2) \<Rightarrow> (Inr u, s2)))"

subsection \<open>Auxiliary notions for the statements\<close>

text \<open>The requests issued by the connection monitor itself.\<close>

definition is_probe :: "call \<Rightarrow> bool" where
  "is_probe c = (case c of Head u \<Rightarrow> True | ConfigCount \<Rightarrow> True | _ \<Rightarrow> False)"

text \<open>The durable tier without the two flags the connection monitor maintains.\<close>

definition unflag :: "(string \<Rightarrow> 'v option) \<Rightarrow> (string \<Rightarrow> 'v option)" where
  "unflag m = (\<lambda>k. if k = ''app_offline_mode'' \<or> k = ''app_network_unreachable'' then None else m k)"

text \<open>What a connectivity check may change: the last status, the two flags, the trace of
  probes and sleeps, and nothing else.\<close>

definition conn_frame :: "('a, 'z) lib_scheme \<Rightarrow> ('a, 'z) lib_scheme \<Rightarrow> bool" where
  "conn_frame s s' =
     (lib.more s' = lib.more s \<and> dataCache s' = dataCache s \<and>
      unflag (localStorage s') = unflag (localStorage s) \<and>
      (\<exists>cs. calls s' = calls s @ cs \<and> list_all is_probe cs))"

text \<open>The exponential term of \<open>getRetryDelay\<close>: \<open>min(cap, base * 2^attempt)\<close>.\<close>

definition expBackoff :: "nat \<Rightarrow> real" where
  "expBackoff attempt = min 120000 (3000 * 2 ^ attempt)"

subsection \<open>Concrete states and environments\<close>

text \<open>A store whose durable tier holds an entry for \<open>k\<close> that expires late.\<close>

definition store_old_entry :: "nat lib" where
  "store_old_entry =
     \<lparr>dataCache = Map.empty,
      localStorage = [''cache_k'' \<mapsto> Json \<lparr>data = Array [1], timestamp = 0, expiry = 1000000\<rparr>],
      lastConnectionStatus = \<lparr>isConnected = False, status_timestamp = 0\<rparr>,
      calls = [], sleeps = []\<rparr>"

text \<open>A provider with nothing loaded, nothing cached and no connectivity result yet.\<close>

definition provider0 :: provider where
  "provider0 =
     \<lparr>dataCache = Map.empty, localStorage = Map.empty,
      lastConnectionStatus = \<lparr>isConnected = False, status_timestamp = 0\<rparr>,
      calls = [], sleeps = [],
      consentimientos = [], consentimientosArchivados = [],
      loading = True, connectionError = False, retryCount = 0,
      lastConnectionAttempt = None, isRetrying = False,
      pendingRetries = [], consoleErrors = [], checkStarts = []\<rparr>"

text \<open>Connectivity environments at clock \<open>t\<close>: every request answers, or none does.\<close>

definition net_up :: "int \<Rightarrow> conn_env" where
  "net_up t =
     \<lparr>clock = t, head_ok = (\<lambda>url. True), probe = (\<lambda>n. Resolved () None), rnd = (\<lambda>n. 0)\<rparr>"

definition net_down :: "int \<Rightarrow> conn_env" where
  "net_down t =
     \<lparr>clock = t, head_ok = (\<lambda>url. False),
      probe = (\<lambda>n. Rejected (JsError ''TypeError'' ''Failed to fetch'')), rnd = (\<lambda>n. 0)\<rparr>"

text \<open>A provider whose last connectivity result, taken at clock 1000, was positive.\<close>

definition warm :: provider where
  "warm = provider0\<lparr>lastConnectionStatus := \<lparr>isConnected = True, status_timestamp = 1000\<rparr>\<rparr>"

text \<open>The same with the offline-mode override set afterwards.\<close>

definition offline_warm :: provider where
  "offline_warm = toggleOfflineMode True warm"

definition cliente_ana :: Cliente where
  "cliente_ana =
     \<lparr>nombre = ''Ana'', apellidos = ''Rojas'', edad = 30, rut = ''1-9'',
      fechaNacimiento = ''1995-01-01'', direccion = ''Calle 1'', telefono = ''555'',
      email = ''ana@example.org'', confirmacionDatos = True\<rparr>"

definition nuevo_ana :: NuevoConsentimiento where
  "nuevo_ana =
     \<lparr>cliente = cliente_ana, tutor = None, informacionSalud = [],
      artistaSeleccionado = ''Daz'', firma = ''sig''\<rparr>"

text \<open>An active record and the row it is transformed from.\<close>

definition consent_a :: Consentimiento where
  "consent_a =
     \<lparr>cliente = cliente_ana, tutor = None, informacionSalud = [],
      artistaSeleccionado = ''Daz'', firma = ''sig'',
      consent_id = ''a1'', codigo = ''TCF-AAAAA-AAAAA'', fechaCreacion = ''2025-01-01'',
      archivado = False\<rparr>"

definition row_a :: Row where
  "row_a =
     \<lparr>row_id = ''a1'', code = ''TCF-AAAAA-AAAAA'',
      client_info = Some
        \<lparr>nombre = ''Ana'', apellidos = ''Rojas'', edad = 30, rut = ''1-9'',
         fechaNacimiento = ''1995-01-01'', direccion = ''Calle 1'', telefono = ''555'',
         email = ''ana@example.org'', confirmacionDatos = True, ci_informacionSalud = None\<rparr>,
      tutor_info = None, artist_id = ''7'', client_signature = ''sig'',
      tutor_signature = None, archived = False, created_at = ''2025-01-01'',
      updated_at = ''2025-01-01'', artists = Some ''Daz''\<rparr>"

text \<open>An environment of \<open>addConsentimiento\<close> in which no request is answered.\<close>

definition add_env_down :: "int \<Rightarrow> add_env" where
  "add_env_down t =
     \<lparr>add_conn = net_down t, add_recheck = net_down (t + 100),
      code_random = (\<lambda>i. 0), iso_date = ''2025-01-02'',
      artist_result = Rejected (JsError ''TypeError'' ''Failed to fetch''),
      insert_result = Rejected (JsError ''TypeError'' ''Failed to fetch''),
      add_cache_clock = t + 50, add_storage_ok = True\<rparr>"

text \<open>Environments of \<open>loadConsentimientos\<close> at clock 50000 with the backend reachable.
  In the first both queries answer (one active row, no archived row); in the second the
  archived query answers with an error; in the third it is aborted by its timeout.\<close>

definition load_env_ok :: load_env where
  "load_env_ok =
     \<lparr>load_clock = 50000, load_conn = net_up 50000, ceiling_first = False, load_random = 0,
      activos = Resolved (Some [row_a]) None, archivados = Resolved (Some []) None,
      cache_clock = 50100, storage_ok = True, catch_clock = 50200\<rparr>"

definition load_env_archived_error :: load_env where
  "load_env_archived_error = load_env_ok\<lparr>archivados := Resolved None (Some ''boom'')\<rparr>"

definition load_env_archived_timeout :: load_env where
  "load_env_archived_timeout =
     load_env_ok\<lparr>archivados := Rejected (JsError ''AbortError'' ''The operation was aborted'')\<rparr>"

text \<open>The backend unreachable at clock 50000.\<close>

definition load_env_down :: load_env where
  "load_env_down = load_env_ok\<lparr>load_conn := net_down 50000\<rparr>"

text \<open>The provider after mounting, while its first load cycle waits for the connectivity
  check: the in-flight flag is set.\<close>

definition in_flight :: provider where
  "in_flight = load_start load_env_ok False provider0"

text \<open>A closure that captured \<open>isRetrying = true\<close>.\<close>

definition busy_closure :: closure where
  "busy_closure = \<lparr>captured_isRetrying = True, captured_retryCount = 0\<rparr>"

text \<open>A provider after one failed background attempt: the error flag is set, the count
  is 1 and the retry timer is pending.\<close>

definition backing_off :: provider where
  "backing_off =
     provider0\<lparr>connectionError := True, retryCount := 1,
               pendingRetries := [(3000, initial_closure)]\<rparr>"

text \<open>A provider whose only active record is \<open>consent_a\<close>, cached at clock 1000, and an
  environment of \<open>archivarConsentimiento\<close> in which the remote call is aborted by its
  timeout.\<close>

definition one_active :: provider where
  "one_active =
     cacheData 1000 True CONSENT_CACHE_KEY (Array [consent_a]) CONSENT_CACHE_TTL
       (warm\<lparr>consentimientos := [consent_a]\<rparr>)"

definition archive_env_timeout :: archive_env where
  "archive_env_timeout =
     \<lparr>archive_conn = net_up 5000, archive_recheck = net_up 9000,
      rpc_result = Rejected (JsError ''AbortError'' ''The operation was aborted''),
      archive_cache_clock = 5100, archive_storage_ok = True\<rparr>"

section \<open>Properties\<close>

subsection \<open>The frame of a connectivity check\<close>

lemma unflag_upd:
  "k = ''app_offline_mode'' \<or> k = ''app_network_unreachable'' \<Longrightarrow> unflag (m(k := v)) = unflag m"
  by (auto simp: unflag_def fun_eq_iff)

lemma conn_frame_refl: "conn_frame s s"
  by (simp add: conn_frame_def)

lemma conn_frame_trans: "conn_frame s s1 \<Longrightarrow> conn_frame s1 s2 \<Longrightarrow> conn_frame s s2"
  by (auto simp: conn_frame_def)

lemma conn_frame_setStatus: "conn_frame s t \<Longrightarrow> conn_frame s (setStatus c x t)"
  by (simp add: conn_frame_def setStatus_def)

lemma conn_frame_setItem:
  "conn_frame s t \<Longrightarrow> k = ''app_offline_mode'' \<or> k = ''app_network_unreachable'' \<Longrightarrow>
   conn_frame s (setItem k v t)"
  by (simp add: conn_frame_def setItem_def unflag_upd)

lemma conn_frame_removeItem:
  "conn_frame s t \<Longrightarrow> k = ''app_offline_mode'' \<or> k = ''app_network_unreachable'' \<Longrightarrow>
   conn_frame s (removeItem k t)"
  by (simp add: conn_frame_def removeItem_def unflag_upd)

lemma conn_frame_call: "conn_frame s t \<Longrightarrow> is_probe c \<Longrightarrow> conn_frame s (t\<lparr>calls := calls t @ [c]\<rparr>)"
  by (auto simp: conn_frame_def)

lemma conn_frame_sleep: "conn_frame s t \<Longrightarrow> conn_frame s (t\<lparr>sleeps := x\<rparr>)"
  by (simp add: conn_frame_def)

lemma try_urls_frame: "conn_frame s0 s \<Longrightarrow> conn_frame s0 (snd (try_urls env us s))"
proof (induction us arbitrary: s)
  case Nil
  then show ?case by simp
next
  case (Cons u us)
  have step: "conn_frame s0 (s\<lparr>calls := calls s @ [Head u]\<rparr>)"
    by (rule conn_frame_call [OF Cons.prems]) (simp add: is_probe_def)
  show ?case
    using Cons.IH [OF step] step by (simp add: Let_def)
qed

lemma probe_loop_frame: "conn_frame s0 s \<Longrightarrow> conn_frame s0 (snd (probe_loop env n d s))"
proof (induction env n d s rule: probe_loop.induct)
  case (1 env currentRetry delay s)
  let ?s1 = "s\<lparr>calls := calls s @ [ConfigCount]\<rparr>"
  have step: "conn_frame s0 ?s1"
    by (rule conn_frame_call [OF "1.prems"]) (simp add: is_probe_def)
  show ?case
  proof (cases "currentRetry < RETRY_maxRetries")
    case False
    then show ?thesis
      using "1.prems" by (simp add: probe_loop.simps [of env currentRetry] conn_frame_setStatus)
  next
    case lt: True
    show ?thesis
    proof (cases "probe env currentRetry")
      case (Resolved u err)
      have a: "conn_frame s0 (setStatus b (clock env) ?s1)" for b
        by (rule conn_frame_setStatus [OF step])
      have b: "conn_frame s0 (removeItem ''app_network_unreachable''
                 (removeItem ''app_offline_mode'' (setStatus b (clock env) ?s1)))" for b
        by (intro conn_frame_removeItem a) simp_all
      show ?thesis
        using lt Resolved a b by (simp add: probe_loop.simps [of env currentRetry] Let_def)
    next
      case (Rejected e)
      show ?thesis
      proof (cases "RETRY_maxRetries \<le> currentRetry + 1")
        case True
        have "conn_frame s0 (setItem ''app_network_unreachable'' ''true''
                 (setStatus False (clock env) ?s1))"
          by (intro conn_frame_setItem conn_frame_setStatus step) simp
        then show ?thesis
          using lt Rejected True by (simp add: probe_loop.simps [of env currentRetry] Let_def)
      next
        case False
        define d' where "d' = min (delay * RETRY_factor + rnd env currentRetry * 0.3 * delay) RETRY_maxDelay"
        define s2 where "s2 = ?s1\<lparr>sleeps := sleeps ?s1 @ [d']\<rparr>"
        have "conn_frame s0 s2"
          unfolding s2_def by (rule conn_frame_sleep [OF step])
        then have "conn_frame s0 (snd (probe_loop env (currentRetry + 1) d' s2))"
          using "1.IH" [OF lt refl Rejected False refl refl] by (simp add: d'_def s2_def)
        then show ?thesis
          using lt Rejected False
          by (simp add: probe_loop.simps [of env currentRetry] Let_def d'_def s2_def)
      qed
    qed
  qed
qed

lemma checkSupabaseConnection_frame: "conn_frame s (snd (checkSupabaseConnection env s))"
proof -
  obtain h s1 where eq: "try_urls env testUrls s = (h, s1)"
    by (cases "try_urls env testUrls s")
  have r: "conn_frame s s" by (rule conn_frame_refl)
  have t: "conn_frame s s1"
    using try_urls_frame [OF r, of env testUrls] eq by simp
  have a: "conn_frame s (setStatus False (clock env) (setItem ''app_network_unreachable'' ''true'' s1))"
    by (intro conn_frame_setStatus conn_frame_setItem t) simp
  have b: "conn_frame s (snd (probe_loop env 0 RETRY_initialDelay s1))"
    by (rule probe_loop_frame [OF t])
  show ?thesis
    using a b r eq
    by (simp add: checkSupabaseConnection_def checkInternetConnection_def conn_frame_setStatus)
qed

subsection \<open>Bounds on the retry delay\<close>







subsection \<open>What the pieces of a load leave unchanged\<close>

lemma more_fields:
  fixes s s' :: provider
  assumes "lib.more s' = lib.more s"
  shows "consentimientos s' = consentimientos s"
    and "consentimientosArchivados s' = consentimientosArchivados s"
    and "loading s' = loading s"
    and "connectionError s' = connectionError s"
    and "retryCount s' = retryCount s"
    and "lastConnectionAttempt s' = lastConnectionAttempt s"
    and "isRetrying s' = isRetrying s"
    and "pendingRetries s' = pendingRetries s"
    and "consoleErrors s' = consoleErrors s"
    and "checkStarts s' = checkStarts s"
  using assms by (cases s, cases s', simp)+

lemma getStored_more: "lib.more (snd (getStored t k s)) = lib.more s"
  by (simp add: getStored_def removeItem_def split: option.splits ls_value.splits)

lemma getCachedData_more: "lib.more (snd (getCachedData t k s)) = lib.more s"
  by (simp add: getCachedData_def getStored_more split: option.splits)

lemma cacheData_more: "lib.more (cacheData t ok k d ttl s) = lib.more s"
  by (simp add: cacheData_def Let_def)

lemmas getCachedData_fields = more_fields [OF getCachedData_more]

lemmas cacheData_fields = more_fields [OF cacheData_more]

lemma conn_frame_more: "conn_frame s s' \<Longrightarrow> lib.more s' = lib.more s"
  by (simp add: conn_frame_def)

lemmas checkSupabaseConnection_fields =
  more_fields [OF conn_frame_more [OF checkSupabaseConnection_frame]]

lemma getCachedData_calls: "calls (snd (getCachedData t k s)) = calls s"
  by (simp add: getCachedData_def getStored_def removeItem_def split: option.splits ls_value.splits)

lemma cacheData_calls: "calls (cacheData t ok k d ttl s) = calls s"
  by (simp add: cacheData_def Let_def)

lemma serve_cached_fields:
  "retryCount (serve_cached a b s) = retryCount s"
  "pendingRetries (serve_cached a b s) = pendingRetries s"
  "connectionError (serve_cached a b s) = connectionError s"
  "consoleErrors (serve_cached a b s) = consoleErrors s"
  "checkStarts (serve_cached a b s) = checkStarts s"
  "isRetrying (serve_cached a b s) = isRetrying s"
  "loading (serve_cached a b s) = loading s"
  "calls (serve_cached a b s) = calls s"
  by (simp_all add: serve_cached_def Let_def)

lemma checkpoint_fields:
  "retryCount (checkpoint s) = retryCount s"
  "pendingRetries (checkpoint s) = pendingRetries s"
  "connectionError (checkpoint s) = connectionError s"
  "consoleErrors (checkpoint s) = consoleErrors s"
  "calls (checkpoint s) = calls s"
  "checkStarts (checkpoint s) = checkStarts s @
     [\<lparr>snap_retryCount = retryCount s, snap_connectionError = connectionError s,
       snap_pending = pendingRetries s\<rparr>]"
  by (simp_all add: checkpoint_def)

lemma load_start_fields:
  "retryCount (load_start env m s) = retryCount s"
  "pendingRetries (load_start env m s) = pendingRetries s"
  "connectionError (load_start env m s) = connectionError s"
  "consoleErrors (load_start env m s) = consoleErrors s"
  "calls (load_start env m s) = calls s"
  "checkStarts (load_start env m s) = checkStarts s @
     [\<lparr>snap_retryCount = retryCount s, snap_connectionError = connectionError s,
       snap_pending = pendingRetries s\<rparr>]"
  by (simp_all add: load_start_def Let_def case_prod_beta checkpoint_fields serve_cached_fields
      getCachedData_fields getCachedData_calls)

text \<open>The in-flight flag a load cycle finds does not matter to it: it is overwritten
  before anything reads it.\<close>

lemma load_start_isRetrying: "load_start env m (s\<lparr>isRetrying := b\<rparr>) = load_start env m s"
  by (simp add: load_start_def)

lemma archivados_try_fields:
  "retryCount (snd (archivados_try env d s)) = retryCount s"
  "pendingRetries (snd (archivados_try env d s)) = pendingRetries s"
  "connectionError (snd (archivados_try env d s)) = connectionError s"
  "consoleErrors (snd (archivados_try env d s)) = consoleErrors s"
  "checkStarts (snd (archivados_try env d s)) = checkStarts s"
  by (simp_all add: archivados_try_def Let_def cacheData_fields split: outcome.splits option.splits)

lemma fetch_archivados_snd: "snd (fetch_archivados env d s) = snd (archivados_try env d s)"
  by (cases "archivados_try env d s")
     (simp add: fetch_archivados_def archivados_catch_def split: sum.splits)

lemma fetch_activos_snd: "snd (fetch_activos env s) = snd (activos_try env s)"
  by (cases "activos_try env s")
     (simp add: fetch_activos_def activos_catch_def split: sum.splits)

lemma activos_try_fields:
  "retryCount (snd (activos_try env s)) = retryCount s"
  "pendingRetries (snd (activos_try env s)) = pendingRetries s"
  "connectionError (snd (activos_try env s)) = connectionError s"
  "consoleErrors (snd (activos_try env s)) = consoleErrors s"
  "checkStarts (snd (activos_try env s)) = checkStarts s"
  by (simp_all add: activos_try_def Let_def fetch_archivados_snd archivados_try_fields
      split: outcome.splits option.splits)

lemmas fetch_activos_fields = activos_try_fields [folded fetch_activos_snd]

lemma load_catch_fields:
  "retryCount (load_catch env e s) = retryCount s"
  "pendingRetries (load_catch env e s) = pendingRetries s"
  "connectionError (load_catch env e s) = True"
  "consoleErrors (load_catch env e s) = consoleErrors s @ [e]"
  "checkStarts (load_catch env e s) = checkStarts s"
  by (simp_all add: load_catch_def Let_def case_prod_beta serve_cached_fields getCachedData_fields)

lemma race_connection_fields:
  "retryCount (snd (race_connection env s)) = retryCount s"
  "pendingRetries (snd (race_connection env s)) = pendingRetries s"
  "connectionError (snd (race_connection env s)) = connectionError s"
  "consoleErrors (snd (race_connection env s)) = consoleErrors s"
  "checkStarts (snd (race_connection env s)) = checkStarts s"
  by (simp_all add: race_connection_def case_prod_beta checkSupabaseConnection_fields)

text \<open>From the connectivity check on, a cycle writes no history entry; it adds at most
  one timer, holding its own closure, and none when the retry is manual; a manual cycle
  ends with the count at 0.\<close>

lemma load_run_frame:
  "checkStarts (load_run cap env m s) = checkStarts s \<and>
   (pendingRetries (load_run cap env m s) = pendingRetries s \<or>
    \<not> m \<and> (\<exists>d. pendingRetries (load_run cap env m s) = pendingRetries s @ [(d, cap)])) \<and>
   (m \<longrightarrow> retryCount (load_run cap env m s) = 0)"
proof (cases "fst (race_connection env s)")
  case False
  then show ?thesis
    by (simp add: load_run_def case_prod_beta load_disconnected_def Let_def race_connection_fields)
next
  case True
  let ?s2 = "(snd (race_connection env s))\<lparr>connectionError := False, retryCount := 0\<rparr>"
  have a: "pendingRetries (snd (fetch_activos env ?s2)) = pendingRetries s"
    and b: "retryCount (snd (fetch_activos env ?s2)) = 0"
    and c: "checkStarts (snd (fetch_activos env ?s2)) = checkStarts s"
    by (simp_all add: fetch_activos_fields race_connection_fields)
  show ?thesis
    using True a b c
    by (cases "fst (fetch_activos env ?s2)")
       (simp_all add: load_run_def case_prod_beta load_catch_fields split: sum.splits)
qed


text \<open>A call that passes the guard writes one history entry and does not depend on the
  in-flight flag it finds; timers hold closures that passed the guard.\<close>

lemma loadConsentimientos_cycle:
  assumes "\<not> (captured_isRetrying cap \<and> \<not> m)"
  shows "checkStarts (loadConsentimientos cap env m s) = checkStarts s @
           [\<lparr>snap_retryCount = retryCount s, snap_connectionError = connectionError s,
             snap_pending = pendingRetries s\<rparr>]"
    and "loadConsentimientos cap env m (s\<lparr>isRetrying := b\<rparr>) = loadConsentimientos cap env m s"
proof -
  have g: "(captured_isRetrying cap \<and> \<not> m) = False"
    using assms by blast
  show "checkStarts (loadConsentimientos cap env m s) = checkStarts s @
           [\<lparr>snap_retryCount = retryCount s, snap_connectionError = connectionError s,
             snap_pending = pendingRetries s\<rparr>]"
    using load_run_frame [of cap env m "load_start env m s"]
    by (simp add: loadConsentimientos_def g load_start_fields)
  show "loadConsentimientos cap env m (s\<lparr>isRetrying := b\<rparr>) = loadConsentimientos cap env m s"
    by (simp add: loadConsentimientos_def g load_start_isRetrying)
qed

lemma loadConsentimientos_timers:
  assumes "list_all (\<lambda>t. \<not> captured_isRetrying (snd t)) (pendingRetries s)"
  shows "list_all (\<lambda>t. \<not> captured_isRetrying (snd t)) (pendingRetries (loadConsentimientos cap env m s))"
proof (cases "captured_isRetrying cap \<and> \<not> m")
  case True
  then show ?thesis using assms by (simp add: loadConsentimientos_def)
next
  case False
  then have g: "(captured_isRetrying cap \<and> \<not> m) = False"
    by blast
  have run: "loadConsentimientos cap env m s = load_run cap env m (load_start env m s)"
    by (simp add: loadConsentimientos_def g)
  from load_run_frame [of cap env m "load_start env m s"]
  have "pendingRetries (load_run cap env m (load_start env m s)) = pendingRetries s \<or>
        \<not> m \<and> (\<exists>d. pendingRetries (load_run cap env m (load_start env m s)) =
                      pendingRetries s @ [(d, cap)])"
    by (simp add: load_start_fields)
  then show ?thesis
    using assms False by (auto simp: run)
qed

subsection \<open>Unfolding sets for concrete runs\<close>

lemmas load_eval =
  loadConsentimientos_def load_run_def load_start_def checkpoint_def load_disconnected_def
  load_catch_def
  getCachedData_def getStored_def serve_cached_def has_items_def items_def
  race_connection_def fetch_activos_def activos_try_def activos_catch_def
  fetch_archivados_def archivados_try_def archivados_catch_def
  transformarDatos_def transformar_def List.map_filter_def
  cacheData_def empty_or_null_def removeItem_def setItem_def setStatus_def
  checkSupabaseConnection_def checkInternetConnection_def isOfflineMode_def
  probe_loop.simps Error_def Let_def
  CONSENT_CACHE_KEY_def ARCHIVED_CONSENT_CACHE_KEY_def CONSENT_CACHE_TTL_def CACHE_TTL_def
  MAX_RETRIES_def RETRY_maxRetries_def RETRY_initialDelay_def testUrls_def

lemmas fixture_eval =
  provider0_def warm_def in_flight_def backing_off_def initial_closure_def busy_closure_def
  net_up_def net_down_def
  load_env_ok_def load_env_archived_error_def load_env_archived_timeout_def load_env_down_def
  row_a_def consent_a_def cliente_ana_def

lemmas archive_eval =
  archivarConsentimiento_def archivar_try_def getConsentimiento_def rpc_try_def rpc_catch_def
  recheck_and_rethrow_def

subsection \<open>The two ways the archived query can fail\<close>


lemma fetch_activos_archived_abort:
  assumes "activos env = Resolved dataActivos None"
    and "archivados env = Rejected e" and "err_name e = ''AbortError''"
  shows "fetch_activos env s =
           (Inl (JsError ''ReferenceError'' ''transformarDatos is not defined''),
            s\<lparr>calls := calls s @ [SelectConsents False, SelectConsents True]\<rparr>)"
  using assms
  by (simp add: fetch_activos_def activos_try_def activos_catch_def fetch_archivados_def
      archivados_try_def archivados_catch_def Let_def)

subsection \<open>A connectivity check seen from the provider\<close>

lemma find_absent: "\<forall>c\<in>set xs. consent_id c \<noteq> i \<Longrightarrow> find (\<lambda>c. consent_id c = i) xs = None"
  by (simp add: find_None_iff)

lemma unflag_cache_key:
  "unflag m = unflag m' \<Longrightarrow> m (''cache_'' @ k) = m' (''cache_'' @ k)"
  by (drule fun_cong [where x = "''cache_'' @ k"]) (simp add: unflag_def)

lemma conn_frame_provider:
  fixes s s' :: provider
  assumes "conn_frame s s'"
  shows "consentimientos s' = consentimientos s"
    and "consentimientosArchivados s' = consentimientosArchivados s"
    and "consoleErrors s' = consoleErrors s"
    and "dataCache s' = dataCache s"
    and "unflag (localStorage s') = unflag (localStorage s)"
    and "\<exists>cs. calls s' = calls s @ cs \<and> list_all is_probe cs"
  using assms more_fields [OF conn_frame_more [OF assms]] by (simp_all add: conn_frame_def)

lemma cacheData_memory:
  "\<not> empty_or_null d \<Longrightarrow>
   map_option data (dataCache (cacheData t ok k d ttl s) k) = Some d"
  "k' \<noteq> k \<Longrightarrow> dataCache (cacheData t ok k d ttl s) k' = dataCache s k'"
  by (simp_all add: cacheData_def Let_def)

subsection \<open>The requests of a connectivity check and of a create\<close>

lemma conn_frame_calls: "conn_frame s s' \<Longrightarrow> \<exists>cs. calls s' = calls s @ cs \<and> list_all is_probe cs"
  by (simp add: conn_frame_def)

lemma try_urls_first:
  "\<exists>cs. calls (snd (try_urls env (u # us) s)) = calls s @ Head u # cs \<and> list_all is_probe cs"
proof -
  let ?s1 = "s\<lparr>calls := calls s @ [Head u]\<rparr>"
  obtain cs where "calls (snd (try_urls env us ?s1)) = calls ?s1 @ cs" "list_all is_probe cs"
    using conn_frame_calls [OF try_urls_frame [OF conn_frame_refl, of ?s1 env us]] by auto
  then show ?thesis
    by (cases "head_ok env u") (simp_all add: Let_def)
qed

lemma check_probes_outside_window:
  assumes "\<not> clock env - status_timestamp (lastConnectionStatus s) < CACHE_TTL"
    and "\<not> isOfflineMode s"
  shows "\<exists>cs. calls (snd (checkSupabaseConnection env s)) =
              calls s @ Head ''https://www.gstatic.com/generate/1x1.png'' # cs \<and>
            list_all is_probe cs"
proof -
  obtain h s1 where eq: "try_urls env testUrls s = (h, s1)"
    by (cases "try_urls env testUrls s")
  obtain cs where cs: "calls s1 = calls s @ Head ''https://www.gstatic.com/generate/1x1.png'' # cs"
    "list_all is_probe cs"
    using try_urls_first [of env "hd testUrls" "tl testUrls" s] eq by (auto simp: testUrls_def)
  obtain cs' where cs': "calls (snd (probe_loop env 0 RETRY_initialDelay s1)) = calls s1 @ cs'"
    "list_all is_probe cs'"
    using conn_frame_calls [OF probe_loop_frame [OF conn_frame_refl, of s1 env 0 RETRY_initialDelay]]
    by auto
  show ?thesis
  proof (cases h)
    case False
    then show ?thesis
      using assms eq cs
      by (simp add: checkSupabaseConnection_def checkInternetConnection_def setStatus_def setItem_def)
  next
    case True
    then show ?thesis
      using assms eq cs cs'
      by (simp add: checkSupabaseConnection_def checkInternetConnection_def)
  qed
qed

lemma insert_try_calls:
  "\<exists>cs. calls (snd (insert_try env nc c f a s)) = calls s @ cs"
  by (simp add: insert_try_def Let_def cacheData_calls
      split: outcome.splits option.splits list.splits)

lemma artist_try_calls:
  "\<exists>cs. calls (snd (artist_try env nc c f s)) = calls s @ cs"
proof -
  let ?s1 = "s\<lparr>calls := calls s @ [SelectArtist (artistaSeleccionado nc)]\<rparr>"
  have ins: "\<exists>cs. calls (snd (case insert_try env nc c f a ?s1 of
                 (Inl fetchError, s2) \<Rightarrow> insert_catch fetchError s2
               | (Inr x, s2) \<Rightarrow> (Inr x, s2))) = calls s @ cs" for a
  proof -
    obtain r s2 where eq: "insert_try env nc c f a ?s1 = (r, s2)"
      by (cases "insert_try env nc c f a ?s1")
    obtain cs where "calls s2 = calls ?s1 @ cs"
      using insert_try_calls [of env nc c f a ?s1] eq by auto
    then show ?thesis
      by (cases r) (simp_all add: eq insert_catch_def)
  qed
  show ?thesis
    using ins by (simp add: artist_try_def Let_def split: outcome.splits option.splits)
qed

lemma recheck_calls:
  "\<exists>cs. calls (snd (recheck_and_rethrow cenv e s)) = calls s @ cs"
proof -
  let ?s' = "s\<lparr>consoleErrors := consoleErrors s @ [e]\<rparr>"
  obtain cs where "calls (snd (checkSupabaseConnection cenv ?s')) = calls ?s' @ cs"
    using conn_frame_calls [OF checkSupabaseConnection_frame [of ?s' cenv]] by auto
  then show ?thesis
    by (simp add: recheck_and_rethrow_def case_prod_beta)
qed

lemma addConsentimiento_calls:
  "\<exists>cs. calls (snd (addConsentimiento env nc s)) =
          calls (snd (checkSupabaseConnection (add_conn env) s)) @ cs"
proof -
  obtain c s1 where eq: "checkSupabaseConnection (add_conn env) s = (c, s1)"
    by (cases "checkSupabaseConnection (add_conn env) s")
  show ?thesis
  proof (cases c)
    case False
    then show ?thesis by (simp add: addConsentimiento_def eq)
  next
    case True
    let ?code = "generateCode (code_random env)"
    obtain r s2 where a: "artist_try env nc ?code (iso_date env) s1 = (r, s2)"
      by (cases "artist_try env nc ?code (iso_date env) s1")
    obtain cs where cs: "calls s2 = calls s1 @ cs"
      using artist_try_calls [of env nc ?code "iso_date env" s1] a by auto
    show ?thesis
    proof (cases r)
      case (Inr x)
      then show ?thesis using True cs by (simp add: addConsentimiento_def eq a Let_def)
    next
      case (Inl e)
      let ?e' = "fst (artist_catch e s2)"
      have ac: "artist_catch e s2 = (Inl (if err_name e = ''AbortError''
          then Error ''Tiempo de espera agotado al buscar el artista. Por favor intente nuevamente.''
          else e), s2)"
        by (simp add: artist_catch_def)
      obtain cs' where "calls (snd (recheck_and_rethrow (add_recheck env)
          (if err_name e = ''AbortError''
           then Error ''Tiempo de espera agotado al buscar el artista. Por favor intente nuevamente.''
           else e) s2 :: (js_error + Consentimiento) \<times> provider)) = calls s2 @ cs'"
        using recheck_calls by blast
      then show ?thesis
        using True Inl cs by (simp add: addConsentimiento_def eq a Let_def ac)
    qed
  qed
qed

subsection \<open>C1: the archived query fails after the active query succeeded\<close>




text \<open>
  The timeout branch of the handler, which is meant to commit and cache the active records
  and report the timeout, stops at its first statement instead: the load prints a
  \<open>ReferenceError\<close>, and the active collection and the cache are left as they were.
\<close>

lemma load_archived_timeout_value:
  "archivados load_env_archived_timeout = Rejected (JsError ''AbortError'' ''The operation was aborted'') \<and>
   consentimientos (loadConsentimientos initial_closure load_env_archived_timeout False provider0) = [] \<and>
   dataCache (loadConsentimientos initial_closure load_env_archived_timeout False provider0) CONSENT_CACHE_KEY = None \<and>
   consoleErrors (loadConsentimientos initial_closure load_env_archived_timeout False provider0) =
     [JsError ''ReferenceError'' ''transformarDatos is not defined'']"
  by (simp add: load_eval fixture_eval)

subsection \<open>C2: the offline-mode override\<close>

text \<open>
  C2. In every state in which the offline-mode override flag is set,
  \<open>checkSupabaseConnection\<close> performs no network call; it returns false when the last
  connectivity result is at least 10 seconds old, and returns the last result when that is
  still inside the 10-second window (the window is tested before the flag).
\<close>

theorem C2_offline_mode_no_network:
  assumes "localStorage s ''app_offline_mode'' = Some (Atom ''true'')"
  shows "calls (snd (checkSupabaseConnection env s)) = calls s \<and>
         (CACHE_TTL \<le> clock env - status_timestamp (lastConnectionStatus s) \<longrightarrow>
            \<not> fst (checkSupabaseConnection env s)) \<and>
         (clock env - status_timestamp (lastConnectionStatus s) < CACHE_TTL \<longrightarrow>
            fst (checkSupabaseConnection env s) = isConnected (lastConnectionStatus s))"
  using assms by (simp add: checkSupabaseConnection_def isOfflineMode_def setStatus_def)

theorem C2_offline_mode_no_network_witness:
  "localStorage offline_warm ''app_offline_mode'' = Some (Atom ''true'') \<and>
   calls (snd (checkSupabaseConnection (net_up 50000) offline_warm)) = [] \<and>
   CACHE_TTL \<le> clock (net_up 50000) - status_timestamp (lastConnectionStatus offline_warm) \<and>
   \<not> fst (checkSupabaseConnection (net_up 50000) offline_warm) \<and>
   calls (snd (checkSupabaseConnection (net_up 5000) offline_warm)) = [] \<and>
   clock (net_up 5000) - status_timestamp (lastConnectionStatus offline_warm) < CACHE_TTL \<and>
   fst (checkSupabaseConnection (net_up 5000) offline_warm) =
     isConnected (lastConnectionStatus offline_warm)"
  using C2_offline_mode_no_network [of offline_warm "net_up 50000"]
        C2_offline_mode_no_network [of offline_warm "net_up 5000"]
  by (simp add: offline_warm_def warm_def provider0_def toggleOfflineMode_def setItem_def
      net_up_def CACHE_TTL_def)

text \<open>The override is set, the last result (positive, 4 seconds old) is still inside the
  window: the answer is true.\<close>

theorem C2_offline_mode_counterexample:
  "localStorage offline_warm ''app_offline_mode'' = Some (Atom ''true'') \<and>
   fst (checkSupabaseConnection (net_up 5000) offline_warm) = True"
  by (simp add: offline_warm_def warm_def provider0_def toggleOfflineMode_def setItem_def
      net_up_def CACHE_TTL_def checkSupabaseConnection_def)

subsection \<open>C3: triggers while a load cycle is in flight\<close>

text \<open>
  C3. Whether a call of \<open>loadConsentimientos\<close> that is not a manual retry is dropped is
  decided by the \<open>isRetrying\<close> value its memoised callback captured, not by the in-flight
  flag of the state: with a captured true it returns at once and changes nothing; with a
  captured false it starts a cycle (one more connectivity check of a load), and the cycle
  is the same whether or not another one is in flight. Each trigger starts a cycle exactly
  when its callback's captured value is false and its own test passes: none for the
  network-restored handler and the periodic reconnect, a positive connectivity check for
  the realtime handler, a visible page, a positive check and a false \<open>isRetrying\<close> as the
  effect saw it for the visibility handler. A scheduled retry runs the callback that
  scheduled it; every timer a load leaves holds a closure that passed the guard, so such a
  retry is not dropped.
\<close>

theorem C3_guard_reads_captured_flag:
  "(captured_isRetrying cap \<longrightarrow> loadConsentimientos cap env False s = s) \<and>
   (\<not> captured_isRetrying cap \<longrightarrow>
      loadConsentimientos cap env False (s\<lparr>isRetrying := b\<rparr>) =
        loadConsentimientos cap env False s \<and>
      length (checkStarts (loadConsentimientos cap env False s)) = Suc (length (checkStarts s))) \<and>
   length (checkStarts (handleOnline cap env s)) =
     length (checkStarts s) + (if captured_isRetrying cap then 0 else 1) \<and>
   length (checkStarts (periodicReconnect cap env s)) =
     length (checkStarts s) + (if captured_isRetrying cap then 0 else 1) \<and>
   length (checkStarts (onRealtimeChange cap cenv env s)) =
     length (checkStarts s) +
       (if fst (checkSupabaseConnection cenv s) \<and> \<not> captured_isRetrying cap then 1 else 0) \<and>
   length (checkStarts (handleVisibilityChange visible seenRetrying cap cenv env s)) =
     length (checkStarts s) +
       (if visible \<and> fst (checkSupabaseConnection cenv s) \<and> \<not> seenRetrying \<and>
           \<not> captured_isRetrying cap then 1 else 0) \<and>
   (pendingRetries s = (delay, tcap) # rest \<longrightarrow>
      length (checkStarts (scheduledRetry env s)) =
        length (checkStarts s) + (if captured_isRetrying tcap then 0 else 1)) \<and>
   (list_all (\<lambda>t. \<not> captured_isRetrying (snd t)) (pendingRetries s) \<longrightarrow>
      list_all (\<lambda>t. \<not> captured_isRetrying (snd t))
        (pendingRetries (loadConsentimientos cap env isManualRetry s)))"
proof -
  have drop: "captured_isRetrying c \<Longrightarrow> loadConsentimientos c env False t = t" for c t
    by (simp add: loadConsentimientos_def)
  have run: "\<not> captured_isRetrying c \<Longrightarrow>
      length (checkStarts (loadConsentimientos c env False t)) = Suc (length (checkStarts t))" for c t
    using loadConsentimientos_cycle(1) [where cap = c and m = False and env = env and s = t]
    by simp
  have n: "length (checkStarts (loadConsentimientos c env False t)) =
      length (checkStarts t) + (if captured_isRetrying c then 0 else 1)" for c t
    using drop [of c t] run [of c t] by simp
  have chk: "checkStarts (snd (checkSupabaseConnection cenv s)) = checkStarts s"
    by (rule checkSupabaseConnection_fields)
  have online: "length (checkStarts (handleOnline cap env s)) =
      length (checkStarts s) + (if captured_isRetrying cap then 0 else 1)"
    by (simp add: handleOnline_def n)
  have periodic: "length (checkStarts (periodicReconnect cap env s)) =
      length (checkStarts s) + (if captured_isRetrying cap then 0 else 1)"
    by (simp add: periodicReconnect_def n)
  have realtime: "length (checkStarts (onRealtimeChange cap cenv env s)) =
      length (checkStarts s) +
        (if fst (checkSupabaseConnection cenv s) \<and> \<not> captured_isRetrying cap then 1 else 0)"
    by (simp add: onRealtimeChange_def case_prod_beta n chk)
  have visibility: "length (checkStarts (handleVisibilityChange visible seenRetrying cap cenv env s)) =
      length (checkStarts s) +
        (if visible \<and> fst (checkSupabaseConnection cenv s) \<and> \<not> seenRetrying \<and>
            \<not> captured_isRetrying cap then 1 else 0)"
    by (simp add: handleVisibilityChange_def case_prod_beta n chk)
  have timer: "pendingRetries s = (delay, tcap) # rest \<longrightarrow>
      length (checkStarts (scheduledRetry env s)) =
        length (checkStarts s) + (if captured_isRetrying tcap then 0 else 1)"
    by (simp add: scheduledRetry_def n)
  show ?thesis
    using drop [of cap s] run [of cap s]
      loadConsentimientos_cycle(2) [where cap = cap and m = False and env = env and s = s and b = b]
      online periodic realtime visibility timer
      loadConsentimientos_timers [of s cap env isManualRetry]
    by simp
qed

theorem C3_guard_reads_captured_flag_witness:
  "captured_isRetrying busy_closure \<and>
   loadConsentimientos busy_closure load_env_down False in_flight = in_flight \<and>
   \<not> captured_isRetrying initial_closure \<and>
   loadConsentimientos initial_closure load_env_down False (in_flight\<lparr>isRetrying := False\<rparr>) =
     loadConsentimientos initial_closure load_env_down False in_flight \<and>
   length (checkStarts (loadConsentimientos initial_closure load_env_down False in_flight)) =
     Suc (length (checkStarts in_flight)) \<and>
   pendingRetries backing_off = (3000, initial_closure) # [] \<and>
   length (checkStarts (scheduledRetry load_env_down backing_off)) =
     length (checkStarts backing_off) + 1 \<and>
   list_all (\<lambda>t. \<not> captured_isRetrying (snd t)) (pendingRetries backing_off) \<and>
   list_all (\<lambda>t. \<not> captured_isRetrying (snd t))
     (pendingRetries (loadConsentimientos initial_closure load_env_down False backing_off))"
proof -
  have a: "captured_isRetrying busy_closure" "\<not> captured_isRetrying initial_closure"
    by (simp_all add: busy_closure_def initial_closure_def)
  have b: "pendingRetries backing_off = (3000, initial_closure) # []"
    "list_all (\<lambda>t. \<not> captured_isRetrying (snd t)) (pendingRetries backing_off)"
    by (simp_all add: backing_off_def initial_closure_def)
  show ?thesis
    using
      C3_guard_reads_captured_flag
        [where cap = busy_closure and env = load_env_down and s = in_flight]
      C3_guard_reads_captured_flag
        [where cap = initial_closure and env = load_env_down and s = in_flight and b = False]
      C3_guard_reads_captured_flag
        [where cap = initial_closure and env = load_env_down and s = backing_off
           and delay = 3000 and tcap = initial_closure and rest = "[]" and isManualRetry = False]
    by (simp add: a b)
qed

text \<open>
  The first cycle after mounting is in flight, and the callback is still the one of the
  first render. The network-restored signal arrives: the handler runs a second cycle,
  which probes, fetches both collections and replaces the active one.
\<close>

theorem C3_triggers_counterexample:
  "isRetrying in_flight \<and> memoised initial_closure in_flight = initial_closure \<and>
   consentimientos in_flight = [] \<and>
   consentimientos (handleOnline initial_closure load_env_ok in_flight) = [consent_a] \<and>
   calls (handleOnline initial_closure load_env_ok in_flight) =
     [Head ''https://www.gstatic.com/generate/1x1.png'', ConfigCount,
      SelectConsents False, SelectConsents True]"
  by (simp add: handleOnline_def memoised_def load_eval fixture_eval)

text \<open>
  The converse also occurs. A callback created in a render in which the count changed
  while a cycle was in flight has captured a true flag, and every later trigger through it
  is dropped although no cycle is in flight.
\<close>

lemma idle_trigger_dropped:
  "memoised \<lparr>captured_isRetrying = False, captured_retryCount = 1\<rparr> in_flight = busy_closure \<and>
   \<not> isRetrying provider0 \<and>
   handleVisibilityChange True False busy_closure (net_up 50000) load_env_ok provider0 =
     snd (checkSupabaseConnection (net_up 50000) provider0)"
  by (simp add: handleVisibilityChange_def memoised_def load_eval fixture_eval)

subsection \<open>C4: create checks the connection first\<close>

text \<open>
  C4. Every call of \<open>addConsentimiento\<close> calls \<open>checkSupabaseConnection\<close> before any
  other request, and that check is not a fresh one: while the last result is less than 10
  seconds old it returns that result without a probe; when the result is older and an
  offline or unreachable flag is set it returns false without a probe; when the result is
  older and no flag is set it probes the network. When the check reports disconnected,
  the call fails at once with the connectivity error: the state is the one the check left,
  and the only requests made are the check's probes (no artist lookup, no insert).
\<close>

theorem C4_create_checks_first:
  "(clock (add_conn env) - status_timestamp (lastConnectionStatus s) < CACHE_TTL \<longrightarrow>
      checkSupabaseConnection (add_conn env) s = (isConnected (lastConnectionStatus s), s)) \<and>
   (\<not> clock (add_conn env) - status_timestamp (lastConnectionStatus s) < CACHE_TTL \<and>
    isOfflineMode s \<longrightarrow>
      \<not> fst (checkSupabaseConnection (add_conn env) s) \<and>
      calls (snd (checkSupabaseConnection (add_conn env) s)) = calls s) \<and>
   (\<not> clock (add_conn env) - status_timestamp (lastConnectionStatus s) < CACHE_TTL \<and>
    \<not> isOfflineMode s \<longrightarrow>
      (\<exists>cs. calls (snd (checkSupabaseConnection (add_conn env) s)) =
               calls s @ Head ''https://www.gstatic.com/generate/1x1.png'' # cs \<and>
            list_all is_probe cs)) \<and>
   (\<exists>cs. calls (snd (addConsentimiento env newConsentimiento s)) =
           calls (snd (checkSupabaseConnection (add_conn env) s)) @ cs) \<and>
   (\<not> fst (checkSupabaseConnection (add_conn env) s) \<longrightarrow>
      addConsentimiento env newConsentimiento s =
        (Inl (Error msg_no_connection), snd (checkSupabaseConnection (add_conn env) s)) \<and>
      (\<exists>cs. calls (snd (addConsentimiento env newConsentimiento s)) = calls s @ cs \<and>
            list_all is_probe cs))"
proof -
  obtain c s1 where eq: "checkSupabaseConnection (add_conn env) s = (c, s1)"
    by (cases "checkSupabaseConnection (add_conn env) s")
  have window: "clock (add_conn env) - status_timestamp (lastConnectionStatus s) < CACHE_TTL \<longrightarrow>
      checkSupabaseConnection (add_conn env) s = (isConnected (lastConnectionStatus s), s)"
    by (simp add: checkSupabaseConnection_def)
  have offline: "\<not> clock (add_conn env) - status_timestamp (lastConnectionStatus s) < CACHE_TTL \<and>
      isOfflineMode s \<longrightarrow>
      \<not> fst (checkSupabaseConnection (add_conn env) s) \<and>
      calls (snd (checkSupabaseConnection (add_conn env) s)) = calls s"
    by (simp add: checkSupabaseConnection_def setStatus_def)
  have probing: "\<not> clock (add_conn env) - status_timestamp (lastConnectionStatus s) < CACHE_TTL \<and>
      \<not> isOfflineMode s \<longrightarrow>
      (\<exists>cs. calls (snd (checkSupabaseConnection (add_conn env) s)) =
               calls s @ Head ''https://www.gstatic.com/generate/1x1.png'' # cs \<and>
            list_all is_probe cs)"
    using check_probes_outside_window [of "add_conn env" s] by blast
  have first: "\<exists>cs. calls (snd (addConsentimiento env newConsentimiento s)) =
      calls (snd (checkSupabaseConnection (add_conn env) s)) @ cs"
    by (rule addConsentimiento_calls)
  have probes: "\<exists>cs. calls s1 = calls s @ cs \<and> list_all is_probe cs"
    using checkSupabaseConnection_frame [of s "add_conn env"] eq by (simp add: conn_frame_def)
  have fast: "\<not> c \<longrightarrow> addConsentimiento env newConsentimiento s = (Inl (Error msg_no_connection), s1)"
    using eq by (simp add: addConsentimiento_def)
  have fail: "\<not> fst (checkSupabaseConnection (add_conn env) s) \<longrightarrow>
      addConsentimiento env newConsentimiento s =
        (Inl (Error msg_no_connection), snd (checkSupabaseConnection (add_conn env) s)) \<and>
      (\<exists>cs. calls (snd (addConsentimiento env newConsentimiento s)) = calls s @ cs \<and>
            list_all is_probe cs)"
    using probes fast by (simp add: eq)
  from window offline probing first fail show ?thesis
    by blast
qed

theorem C4_create_checks_first_witness:
  "clock (add_conn (add_env_down 5000)) - status_timestamp (lastConnectionStatus warm) < CACHE_TTL \<and>
   checkSupabaseConnection (add_conn (add_env_down 5000)) warm = (True, warm) \<and>
   \<not> clock (add_conn (add_env_down 50000)) - status_timestamp (lastConnectionStatus offline_warm)
       < CACHE_TTL \<and>
   isOfflineMode offline_warm \<and>
   \<not> fst (checkSupabaseConnection (add_conn (add_env_down 50000)) offline_warm) \<and>
   calls (snd (checkSupabaseConnection (add_conn (add_env_down 50000)) offline_warm)) = [] \<and>
   \<not> clock (add_conn (add_env_down 50000)) - status_timestamp (lastConnectionStatus warm)
       < CACHE_TTL \<and>
   \<not> isOfflineMode warm \<and>
   \<not> fst (checkSupabaseConnection (add_conn (add_env_down 50000)) warm) \<and>
   fst (addConsentimiento (add_env_down 50000) nuevo_ana warm) = Inl (Error msg_no_connection) \<and>
   calls (snd (addConsentimiento (add_env_down 50000) nuevo_ana warm)) = map Head testUrls"
  using C4_create_checks_first [of "add_env_down 5000" warm nuevo_ana]
        C4_create_checks_first [of "add_env_down 50000" offline_warm nuevo_ana]
        C4_create_checks_first [of "add_env_down 50000" warm nuevo_ana]
  by (simp add: add_env_down_def net_down_def offline_warm_def toggleOfflineMode_def warm_def
      provider0_def CACHE_TTL_def checkSupabaseConnection_def checkInternetConnection_def
      isOfflineMode_def testUrls_def setStatus_def setItem_def Let_def)

text \<open>With a positive result 4 seconds old and a network that answers nothing, the call
  makes no connectivity probe: its first and only request is the artist lookup.\<close>

theorem C4_fresh_check_counterexample:
  "calls (snd (addConsentimiento (add_env_down 5000) nuevo_ana warm)) = [SelectArtist ''Daz'']"
  by (simp add: add_env_down_def net_down_def warm_def provider0_def CACHE_TTL_def
      nuevo_ana_def addConsentimiento_def checkSupabaseConnection_def artist_try_def
      artist_catch_def recheck_and_rethrow_def Let_def)

subsection \<open>C5: manual retry\<close>



subsection \<open>C6: the background-retry delay\<close>



text \<open>Once the exponential term is capped the jitter alone decides, and a later delay can
  be smaller than an earlier one.\<close>

lemma getRetryDelay_at_cap: "getRetryDelay 0.99 5 = 124224 \<and> getRetryDelay 0 6 = 84000"
  by (simp add: getRetryDelay_def)

subsection \<open>C7: storing nothing\<close>

text \<open>
  C7. For every key, calling \<open>set\<close> with null or empty data is a no-op: the state is returned
  as it was, so an entry stored earlier under the key is unchanged in the in-memory tier
  and in the durable tier.
\<close>

theorem C7_set_empty_noop:
  "cacheData now ok key Null ttl s = s \<and> cacheData now ok key (Array []) ttl s = s"
  by (simp add: cacheData_def empty_or_null_def)

subsection \<open>C8: store, then read\<close>

text \<open>
  C8. For every key and non-empty non-null value: \<open>set\<close> followed by \<open>get\<close> at a
  time not after the expiry returns the stored value; \<open>get\<close> at a time after the expiry
  returns a miss, provided the write of that \<open>set\<close> to the durable tier succeeded.
\<close>

theorem C8_set_then_get:
  assumes "\<not> empty_or_null d"
  shows "(t' \<le> t + ttl * 1000 \<longrightarrow>
            fst (getCachedData t' key (cacheData t ok key d ttl s)) = d) \<and>
         (t + ttl * 1000 < t' \<longrightarrow>
            fst (getCachedData t' key (cacheData t True key d ttl s)) = Null)"
  using assms by (simp add: cacheData_def getCachedData_def getStored_def Let_def)

theorem C8_set_then_get_witness:
  "\<not> empty_or_null (Array [2::nat]) \<and>
   (1500::int) \<le> 1000 + 1 * 1000 \<and>
   fst (getCachedData 1500 ''k'' (cacheData 1000 False ''k'' (Array [2]) 1 store_old_entry)) = Array [2] \<and>
   (1000::int) + 1 * 1000 < 5000 \<and>
   fst (getCachedData 5000 ''k'' (cacheData 1000 True ''k'' (Array [2]) 1 store_old_entry)) = Null"
  using C8_set_then_get [of "Array [2::nat]" 1500 1000 1 "''k''" False store_old_entry]
        C8_set_then_get [of "Array [2::nat]" 5000 1000 1 "''k''" False store_old_entry]
  by (simp add: empty_or_null_def)

text \<open>
  When the durable write of \<open>set\<close> throws (the code catches and logs it), the durable tier
  keeps its older entry, and \<open>get\<close> after the new entry's expiry returns that older value
  instead of a miss.
\<close>

theorem C8_get_after_ttl_counterexample:
  "\<not> empty_or_null (Array [2::nat]) \<and>
   (1000::int) + 1 * 1000 < 5000 \<and>
   fst (getCachedData 5000 ''k'' (cacheData 1000 False ''k'' (Array [2]) 1 store_old_entry)) = Array [1]"
  by (simp add: empty_or_null_def cacheData_def getCachedData_def getStored_def Let_def
      store_old_entry_def)

subsection \<open>C9: archiving the last active record\<close>

text \<open>
  C9. The specification states that for every record of the active collection,
  \<open>archive(id)\<close> moves it to the archived collection in memory and in the cache before
  the remote call, and that when the remote call times out the caller gets the timeout
  error while the record is already absent from the active collection in memory and in
  the cache. The run below archives
  the only active record with the remote call timing out: the caller gets the timeout
  error, the record has left the active collection in memory and entered the archived
  one in memory and in the cache, but the cache entry of the active collection still
  holds it, since \<open>cacheData\<close> ignores the empty array it is given.
\<close>

theorem C9_archive_last_active_record:
  "consentimientos one_active = [consent_a] \<and>
   fst (archivarConsentimiento archive_env_timeout ''a1'' one_active) =
     Inl (Error msg_archive_timeout) \<and>
   consentimientos (snd (archivarConsentimiento archive_env_timeout ''a1'' one_active)) = [] \<and>
   consentimientosArchivados (snd (archivarConsentimiento archive_env_timeout ''a1'' one_active)) =
     [consent_a\<lparr>archivado := True\<rparr>] \<and>
   fst (getCachedData 9500 CONSENT_CACHE_KEY
          (snd (archivarConsentimiento archive_env_timeout ''a1'' one_active))) =
     Array [consent_a] \<and>
   fst (getCachedData 9500 ARCHIVED_CONSENT_CACHE_KEY
          (snd (archivarConsentimiento archive_env_timeout ''a1'' one_active))) =
     Array [consent_a\<lparr>archivado := True\<rparr>]"
  by (simp add: one_active_def archive_env_timeout_def archive_eval load_eval fixture_eval)

text \<open>
  In general: with a positive connectivity check, the record found in the active
  collection and the remote call aborted by its timeout, the caller gets the timeout
  error, both collections are updated in memory and the archived collection in the cache;
  the cache entry of the active collection is rewritten when other active records remain,
  and is left as it was when none remains.
\<close>

lemma archive_timeout_moves_record:
  assumes conn: "fst (checkSupabaseConnection (archive_conn env) s)"
    and found: "find (\<lambda>c. consent_id c = i) (consentimientos s) = Some c"
    and rpc: "rpc_result env = Rejected e" "err_name e = ''AbortError''"
  shows "fst (archivarConsentimiento env i s) = Inl (Error msg_archive_timeout) \<and>
         consentimientos (snd (archivarConsentimiento env i s)) =
           filter (\<lambda>c. consent_id c \<noteq> i) (consentimientos s) \<and>
         consentimientosArchivados (snd (archivarConsentimiento env i s)) =
           c\<lparr>archivado := True\<rparr> # consentimientosArchivados s \<and>
         map_option data (dataCache (snd (archivarConsentimiento env i s)) ARCHIVED_CONSENT_CACHE_KEY) =
           Some (Array (c\<lparr>archivado := True\<rparr> # consentimientosArchivados s)) \<and>
         (filter (\<lambda>c. consent_id c \<noteq> i) (consentimientos s) \<noteq> [] \<longrightarrow>
            map_option data (dataCache (snd (archivarConsentimiento env i s)) CONSENT_CACHE_KEY) =
              Some (Array (filter (\<lambda>c. consent_id c \<noteq> i) (consentimientos s)))) \<and>
         (filter (\<lambda>c. consent_id c \<noteq> i) (consentimientos s) = [] \<longrightarrow>
            dataCache (snd (archivarConsentimiento env i s)) CONSENT_CACHE_KEY =
              dataCache s CONSENT_CACHE_KEY)"
proof -
  let ?act = "filter (\<lambda>c. consent_id c \<noteq> i) (consentimientos s)"
  let ?arc = "c\<lparr>archivado := True\<rparr> # consentimientosArchivados s"
  let ?err = "Error msg_archive_timeout"
  obtain s1 where c1: "checkSupabaseConnection (archive_conn env) s = (True, s1)"
    using conn by (cases "checkSupabaseConnection (archive_conn env) s") auto
  have f1: "conn_frame s s1"
    using checkSupabaseConnection_frame [of s "archive_conn env"] c1 by simp
  note p1 = conn_frame_provider [OF f1]
  have g: "getConsentimiento i s1 = Some c"
    using found by (simp add: getConsentimiento_def p1)
  define s3 where "s3 = cacheData (archive_cache_clock env) (archive_storage_ok env)
      CONSENT_CACHE_KEY (Array ?act) CONSENT_CACHE_TTL
      (s1\<lparr>consentimientos := ?act, consentimientosArchivados := ?arc\<rparr>)"
  define s4 where "s4 = cacheData (archive_cache_clock env) (archive_storage_ok env)
      ARCHIVED_CONSENT_CACHE_KEY (Array ?arc) CONSENT_CACHE_TTL s3"
  define s5 where "s5 = s4\<lparr>calls := calls s4 @ [RpcArchivar i]\<rparr>"
  have thrown: "archivar_try env i s1 = (Inl ?err, s5)"
    using rpc by (simp add: archivar_try_def g Let_def p1 rpc_try_def rpc_catch_def
        s3_def s4_def s5_def)
  let ?s5' = "s5\<lparr>consoleErrors := consoleErrors s5 @ [?err]\<rparr>"
  obtain still s6 where c2: "checkSupabaseConnection (archive_recheck env) ?s5' = (still, s6)"
    by (cases "checkSupabaseConnection (archive_recheck env) ?s5'")
  have f2: "conn_frame ?s5' s6"
    using checkSupabaseConnection_frame [of ?s5' "archive_recheck env"] c2 by simp
  note p2 = conn_frame_provider [OF f2]
  have res: "archivarConsentimiento env i s =
               (Inl ?err, if \<not> still then s6\<lparr>connectionError := True\<rparr> else s6)"
    by (simp add: archivarConsentimiento_def c1 thrown recheck_and_rethrow_def c2)
  have keys: "CONSENT_CACHE_KEY \<noteq> ARCHIVED_CONSENT_CACHE_KEY"
    by (simp add: CONSENT_CACHE_KEY_def ARCHIVED_CONSENT_CACHE_KEY_def)
  have cons: "consentimientos s5 = ?act" "consentimientosArchivados s5 = ?arc"
    by (simp_all add: s5_def s4_def s3_def cacheData_fields)
  have arc: "map_option data (dataCache s5 ARCHIVED_CONSENT_CACHE_KEY) = Some (Array ?arc)"
    by (simp add: s5_def s4_def cacheData_memory empty_or_null_def)
  have act1: "?act \<noteq> [] \<Longrightarrow>
      map_option data (dataCache s5 CONSENT_CACHE_KEY) = Some (Array ?act)"
    using keys by (simp add: s5_def s4_def s3_def cacheData_memory empty_or_null_def)
  have act2: "?act = [] \<Longrightarrow> dataCache s5 CONSENT_CACHE_KEY = dataCache s CONSENT_CACHE_KEY"
    using keys by (simp add: s5_def s4_def s3_def p1 cacheData_def empty_or_null_def Let_def)
  show ?thesis
    using arc act1 act2 by (simp add: res p2 cons)
qed

subsection \<open>C10: archiving an unknown id\<close>

text \<open>
  C10. For every id that is in neither collection, \<open>archivarConsentimiento\<close>, once its
  connectivity check has succeeded, throws the not-found error and leaves both collections,
  the in-memory cache and every \<open>cache_\<close> entry of the durable tier unchanged; the only
  requests it makes are those of its connectivity checks (no remote archive call).
\<close>

theorem C10_archive_not_found:
  assumes conn: "fst (checkSupabaseConnection (archive_conn env) s)"
    and absent: "i \<notin> consent_id ` (set (consentimientos s) \<union> set (consentimientosArchivados s))"
  shows "fst (archivarConsentimiento env i s) =
           Inl (Error ''No se encontro el consentimiento a archivar'') \<and>
         consentimientos (snd (archivarConsentimiento env i s)) = consentimientos s \<and>
         consentimientosArchivados (snd (archivarConsentimiento env i s)) =
           consentimientosArchivados s \<and>
         dataCache (snd (archivarConsentimiento env i s)) = dataCache s \<and>
         (\<forall>k. localStorage (snd (archivarConsentimiento env i s)) (''cache_'' @ k) =
              localStorage s (''cache_'' @ k)) \<and>
         (\<exists>cs. calls (snd (archivarConsentimiento env i s)) = calls s @ cs \<and>
               list_all is_probe cs)"
proof -
  let ?err = "Error ''No se encontro el consentimiento a archivar''"
  obtain s1 where c1: "checkSupabaseConnection (archive_conn env) s = (True, s1)"
    using conn by (cases "checkSupabaseConnection (archive_conn env) s") auto
  have f1: "conn_frame s s1"
    using checkSupabaseConnection_frame [of s "archive_conn env"] c1 by simp
  note p1 = conn_frame_provider [OF f1]
  have "\<forall>c\<in>set (consentimientos s). consent_id c \<noteq> i"
    and "\<forall>c\<in>set (consentimientosArchivados s). consent_id c \<noteq> i"
    using absent by auto
  then have "getConsentimiento i s1 = None"
    by (simp add: getConsentimiento_def p1 find_absent)
  then have thrown: "archivar_try env i s1 = (Inl ?err, s1)"
    by (simp add: archivar_try_def)
  let ?s1' = "s1\<lparr>consoleErrors := consoleErrors s1 @ [?err]\<rparr>"
  obtain still s2 where c2: "checkSupabaseConnection (archive_recheck env) ?s1' = (still, s2)"
    by (cases "checkSupabaseConnection (archive_recheck env) ?s1'")
  have f2: "conn_frame ?s1' s2"
    using checkSupabaseConnection_frame [of ?s1' "archive_recheck env"] c2 by simp
  note p2 = conn_frame_provider [OF f2]
  have res: "archivarConsentimiento env i s =
               (Inl ?err, if \<not> still then s2\<lparr>connectionError := True\<rparr> else s2)"
    by (simp add: archivarConsentimiento_def c1 thrown recheck_and_rethrow_def c2)
  have ls: "localStorage s2 (''cache_'' @ k) = localStorage s (''cache_'' @ k)" for k
    using unflag_cache_key [OF p2(5), of k] unflag_cache_key [OF p1(5), of k] by simp
  obtain cs1 cs2 where "calls s1 = calls s @ cs1" "list_all is_probe cs1"
    "calls s2 = calls s1 @ cs2" "list_all is_probe cs2"
    using p1(6) p2(6) by auto
  then have cl: "\<exists>cs. calls s2 = calls s @ cs \<and> list_all is_probe cs"
    by (intro exI [of _ "cs1 @ cs2"]) simp
  show ?thesis
    using cl ls by (simp add: res p1 p2)
qed

theorem C10_archive_not_found_witness:
  "fst (checkSupabaseConnection (archive_conn archive_env_timeout) one_active) \<and>
   ''zz'' \<notin> consent_id ` (set (consentimientos one_active) \<union> set (consentimientosArchivados one_active)) \<and>
   fst (archivarConsentimiento archive_env_timeout ''zz'' one_active) =
     Inl (Error ''No se encontro el consentimiento a archivar'') \<and>
   consentimientos (snd (archivarConsentimiento archive_env_timeout ''zz'' one_active)) = [consent_a] \<and>
   consentimientosArchivados (snd (archivarConsentimiento archive_env_timeout ''zz'' one_active)) = [] \<and>
   dataCache (snd (archivarConsentimiento archive_env_timeout ''zz'' one_active)) = dataCache one_active \<and>
   list_all is_probe (calls (snd (archivarConsentimiento archive_env_timeout ''zz'' one_active)))"
proof -
  have a: "fst (checkSupabaseConnection (archive_conn archive_env_timeout) one_active)"
    by (simp add: one_active_def archive_env_timeout_def load_eval fixture_eval)
  have b: "''zz'' \<notin> consent_id ` (set (consentimientos one_active) \<union> set (consentimientosArchivados one_active))"
    by (simp add: one_active_def load_eval fixture_eval)
  have c: "consentimientos one_active = [consent_a]" "consentimientosArchivados one_active = []"
    "calls one_active = []"
    by (simp_all add: one_active_def load_eval fixture_eval)
  show ?thesis
    using C10_archive_not_found [OF a b] a b by (simp add: c)
qed

end
